theory Spec2Isabelle
  imports Main
begin

section \<open>Python strings\<close>

text \<open>
  A Python \<^verbatim>\<open>str\<close> is modelled as a \<^typ>\<open>string\<close>: a list of characters, each a code
  point below 256. The classes below are Python's on that range: \<^verbatim>\<open>\d\<close> matches the
  decimal digits, \<^verbatim>\<open>\s\<close> matches what \<^verbatim>\<open>str.isspace\<close> accepts, and \<^verbatim>\<open>.\<close> matches
  everything but the line feed (everything at all under \<^verbatim>\<open>re.DOTALL\<close>).
\<close>

definition is_digit :: "char \<Rightarrow> bool" where
  "is_digit c = (c \<in> set ''0123456789'')"

definition is_space :: "char \<Rightarrow> bool" where
  "is_space c = (c \<in> set [CHR 0x09, CHR 0x0A, CHR 0x0B, CHR 0x0C, CHR 0x0D,
                            CHR 0x1C, CHR 0x1D, CHR 0x1E, CHR 0x1F, CHR 0x20,
                            CHR 0x85, CHR 0xA0])"

definition dot :: "char \<Rightarrow> bool" where
  "dot c = (c \<noteq> CHR 0x0A)"

definition dotall :: "char \<Rightarrow> bool" where
  "dotall c = True"

definition digit_or_comma :: "char \<Rightarrow> bool" where
  "digit_or_comma c = (is_digit c \<or> c = CHR '','')"

text \<open>\<^verbatim>\<open>s.startswith(p)\<close> and \<^verbatim>\<open>p in s\<close>.\<close>

fun startswith :: "string \<Rightarrow> string \<Rightarrow> bool" where
  "startswith [] s = True"
| "startswith (p # ps) [] = False"
| "startswith (p # ps) (c # cs) = (p = c \<and> startswith ps cs)"

fun str_in :: "string \<Rightarrow> string \<Rightarrow> bool" where
  "str_in p [] = (p = [])"
| "str_in p (c # cs) = (startswith p (c # cs) \<or> str_in p cs)"

text \<open>
  \<^verbatim>\<open>s.lower()\<close>. Only the letters A to Z are mapped; the one use in the program asks whether
  the result contains \<^verbatim>\<open>normal\<close>, and no other character lowers to one of its letters.
\<close>

definition lower_char :: "char \<Rightarrow> char" where
  "lower_char c =
     (case map_of (zip ''ABCDEFGHIJKLMNOPQRSTUVWXYZ'' ''abcdefghijklmnopqrstuvwxyz'') c of
        Some l \<Rightarrow> l
      | None \<Rightarrow> c)"

definition lower :: "string \<Rightarrow> string" where
  "lower s = map lower_char s"

text \<open>
  \<^verbatim>\<open>int(s)\<close>. The program calls it on a run captured by \<^verbatim>\<open>\d+\<close>, on a run of digits and
  commas with the commas removed (possibly empty), and on a string that passed
  \<^verbatim>\<open>isdigit()\<close>. On these it succeeds exactly when the string is a non-empty run of
  decimal digits, and raises \<^verbatim>\<open>ValueError\<close> otherwise. The interpreter's optional limit
  on the number of digits is not modelled.
\<close>

definition digit_val :: "char \<Rightarrow> int" where
  "digit_val c = int (of_char c) - 48"

definition py_int :: "string \<Rightarrow> int option" where
  "py_int s =
     (if s \<noteq> [] \<and> list_all is_digit s
      then Some (foldl (\<lambda>a c. 10 * a + digit_val c) 0 s)
      else None)"

text \<open>
  \<^verbatim>\<open>s.isdigit()\<close>: non-empty, and every character a digit; below 256 these are the decimal
  digits and the superscripts one, two and three.
\<close>

definition isdigit :: "string \<Rightarrow> bool" where
  "isdigit s =
     (s \<noteq> [] \<and> list_all (\<lambda>c. is_digit c \<or> c \<in> set [CHR 0xB2, CHR 0xB3, CHR 0xB9]) s)"

text \<open>\<^verbatim>\<open>str(n)\<close> of an integer, as an f-string renders it.\<close>

fun str_nat :: "nat \<Rightarrow> string" where
  "str_nat n =
     (if n < 10 then [''0123456789'' ! n]
      else str_nat (n div 10) @ [''0123456789'' ! (n mod 10)])"

definition str_int :: "int \<Rightarrow> string" where
  "str_int i = (if i < 0 then CHR ''-'' # str_nat (nat (- i)) else str_nat (nat i))"

section \<open>Regular expressions\<close>

text \<open>
  The fragment of Python's \<^verbatim>\<open>re\<close> that the program uses: a literal, a repeated character
  class (greedy \<^verbatim>\<open>*\<close> and \<^verbatim>\<open>+\<close>, lazy \<^verbatim>\<open>*?\<close>), a numbered group, alternation and
  sequence. \<open>matches r s g\<close> lists every way for \<open>r\<close> to match a prefix of \<open>s\<close>, as the rest
  of the input and the groups set so far, in the order in which the backtracking matcher
  tries them: a greedy repetition longest first, a lazy one shortest first, the left
  alternative before the right one. The match that \<^verbatim>\<open>re.search\<close> reports is the first
  such way at the leftmost start position that has one.
\<close>

datatype regex =
    Lit string
  | Star "char \<Rightarrow> bool"
  | LazyStar "char \<Rightarrow> bool"
  | Plus "char \<Rightarrow> bool"
  | Group nat regex
  | Alt regex regex
  | Seq regex regex

type_synonym groups = "nat \<Rightarrow> string option"

fun matches :: "regex \<Rightarrow> string \<Rightarrow> groups \<Rightarrow> (string \<times> groups) list" where
  "matches (Lit l) s g = (if startswith l s then [(drop (length l) s, g)] else [])"
| "matches (Star P) s g =
     map (\<lambda>n. (drop n s, g)) (rev [0 ..< Suc (length (takeWhile P s))])"
| "matches (LazyStar P) s g =
     map (\<lambda>n. (drop n s, g)) [0 ..< Suc (length (takeWhile P s))]"
| "matches (Plus P) s g =
     map (\<lambda>n. (drop n s, g)) (rev [1 ..< Suc (length (takeWhile P s))])"
| "matches (Group i r) s g =
     map (\<lambda>(rest, g'). (rest, g'(i \<mapsto> take (length s - length rest) s))) (matches r s g)"
| "matches (Alt a b) s g = matches a s g @ matches b s g"
| "matches (Seq a b) s g = concat (map (\<lambda>(rest, g'). matches b rest g') (matches a s g))"

fun cat :: "regex list \<Rightarrow> regex" where
  "cat [] = Lit []"
| "cat [r] = r"
| "cat (r # rs) = Seq r (cat rs)"

fun search :: "regex \<Rightarrow> string \<Rightarrow> groups option" where
  "search r [] = (case matches r [] Map.empty of [] \<Rightarrow> None | (rest, g) # _ \<Rightarrow> Some g)"
| "search r (c # cs) =
     (case matches r (c # cs) Map.empty of [] \<Rightarrow> search r cs | (rest, g) # _ \<Rightarrow> Some g)"

text \<open>\<^verbatim>\<open>m.group(i)\<close>; every group the program reads takes part in every match of its pattern.\<close>

definition group :: "groups \<Rightarrow> nat \<Rightarrow> string" where
  "group g i = (case g i of Some t \<Rightarrow> t | None \<Rightarrow> [])"

section \<open>The environment\<close>

text \<open>
  What the program obtains from outside is a parameter of the model: whether the process
  has administrative rights (\<^verbatim>\<open>is_admin\<close>), the path that \<^verbatim>\<open>initialize_smartmontools\<close>
  returns (\<open>None\<close> when the download or the extraction fails), and the text that
  \<^verbatim>\<open>run_smartctl\<close> returns for a path and an argument list (\<open>None\<close> when starting the
  process raises; \<^verbatim>\<open>run_smartctl\<close> catches that itself). The floating-point step
  \<^verbatim>\<open>round(bytes_value / (1024**4), 2)\<close>, rendered by the f-string, is the parameter
  \<open>tb_text\<close> of the byte count; it is \<open>None\<close> where the division raises
  \<^verbatim>\<open>OverflowError\<close>. Console output is not modelled.
\<close>

record world =
  is_admin :: bool
  initialize_smartmontools :: "string option"
  run_smartctl :: "string \<Rightarrow> string list \<Rightarrow> string option"
  tb_text :: "int \<Rightarrow> string option"

text \<open>\<^verbatim>\<open>if not output\<close>: \<^verbatim>\<open>None\<close> and the empty string are both falsy.\<close>

definition truthy :: "string option \<Rightarrow> string option" where
  "truthy out = (case out of None \<Rightarrow> None | Some t \<Rightarrow> if t = [] then None else Some t)"

section \<open>Listing the disks\<close>

definition is_linebreak :: "char \<Rightarrow> bool" where
  "is_linebreak c = (c \<in> set [CHR 0x0A, CHR 0x0B, CHR 0x0C, CHR 0x0D,
                                CHR 0x1C, CHR 0x1D, CHR 0x1E, CHR 0x85])"

fun splitlines_from :: "string \<Rightarrow> string \<Rightarrow> string list" where
  "splitlines_from cur [] = (if cur = [] then [] else [cur])"
| "splitlines_from cur [c] = (if is_linebreak c then [cur] else [cur @ [c]])"
| "splitlines_from cur (c # d # cs) =
     (if c = CHR 0x0D \<and> d = CHR 0x0A then cur # splitlines_from [] cs
      else if is_linebreak c then cur # splitlines_from [] (d # cs)
      else splitlines_from (cur @ [c]) (d # cs))"

definition splitlines :: "string \<Rightarrow> string list" where
  "splitlines s = splitlines_from [] s"

text \<open>
  \<^verbatim>\<open>line.split()[0]\<close>: the first run of non-blank characters. The program takes it only
  of a line that contains \<^verbatim>\<open>/dev/\<close>, which has one.
\<close>

definition first_field :: "string \<Rightarrow> string" where
  "first_field line = takeWhile (\<lambda>c. \<not> is_space c) (dropWhile is_space line)"

definition get_physical_disks :: "world \<Rightarrow> string \<Rightarrow> string list" where
  "get_physical_disks w smartctl_path =
     (case truthy (run_smartctl w smartctl_path [''--scan'']) of
        None \<Rightarrow> []
      | Some output \<Rightarrow> map first_field (filter (str_in ''/dev/'') (splitlines output)))"

section \<open>The disk record\<close>

record attributes =
  Temperature :: string
  PowerOnTime :: string
  ReallocatedSectors :: string
  PendingSectors :: string
  UncorrectableSectors :: string
  LifeRemaining :: string
  TotalWritten :: string
  TotalRead :: string

record disk_info =
  Model :: string
  SerialNumber :: string
  IsSSD :: bool
  HealthStatus :: string
  Attributes :: attributes

definition new_disk_info :: disk_info where
  "new_disk_info =
     \<lparr>Model = ''Unknown'', SerialNumber = ''Unknown'', IsSSD = False,
      HealthStatus = ''Unknown'',
      Attributes = \<lparr>Temperature = ''N/A'', PowerOnTime = ''N/A'',
                    ReallocatedSectors = ''N/A'', PendingSectors = ''N/A'',
                    UncorrectableSectors = ''N/A'', LifeRemaining = ''N/A'',
                    TotalWritten = ''N/A'', TotalRead = ''N/A''\<rparr>\<rparr>"

section \<open>Formatting helpers of the program\<close>

definition parse_power_on_hours :: "string \<Rightarrow> string" where
  "parse_power_on_hours v =
     (if v = ''N/A'' \<or> v = [] then ''N/A''
      else case py_int v of
             Some hours \<Rightarrow>
               str_int (hours div 24) @ '' days, '' @ str_int (hours mod 24) @ '' hours''
           | None \<Rightarrow> v)"

definition lba_bytes :: "int \<Rightarrow> int" where
  "lba_bytes n = n * 512"

definition data_unit_bytes :: "int \<Rightarrow> int" where
  "data_unit_bytes n = n * 512 * 1024"

definition parse_lba_to_tb :: "world \<Rightarrow> string \<Rightarrow> string" where
  "parse_lba_to_tb w v =
     (if v = ''N/A'' \<or> v = [] then ''N/A''
      else case py_int v of
             None \<Rightarrow> v
           | Some n \<Rightarrow>
               (case tb_text w (lba_bytes n) of
                  None \<Rightarrow> v
                | Some tb_value \<Rightarrow> tb_value @ '' TB''))"

text \<open>The text \<^verbatim>\<open>f"{v} \<degree>C"\<close>: a space, the degree sign (code point 176) and \<open>C\<close>.\<close>

definition celsius :: "string \<Rightarrow> string" where
  "celsius v = v @ [CHR 0x20, CHR 0xB0, CHR ''C'']"

section \<open>Extraction: \<^verbatim>\<open>get_disk_info\<close>\<close>

text \<open>
  The function fills the record in stages, one per commented block of the source. Each
  stage below takes the text it reads and the record so far, and returns the record
  updated, as the assignments to the dictionary do.
\<close>

definition labelled_line :: "string \<Rightarrow> regex" where
  "labelled_line label = cat [Lit label, Plus is_space, Group 1 (Plus dot)]"

definition parse_model :: "string \<Rightarrow> disk_info \<Rightarrow> disk_info" where
  "parse_model info_output di =
     (case search (labelled_line ''Device Model:'') info_output of
        Some model_match \<Rightarrow> di\<lparr>Model := group model_match 1\<rparr>
      | None \<Rightarrow>
          (case search (labelled_line ''Product:'') info_output of
             Some product_match \<Rightarrow> di\<lparr>Model := group product_match 1\<rparr>
           | None \<Rightarrow>
               (case search (labelled_line ''Model Number:'') info_output of
                  Some model_match \<Rightarrow> di\<lparr>Model := group model_match 1\<rparr>
                | None \<Rightarrow> di)))"

definition parse_serial :: "string \<Rightarrow> disk_info \<Rightarrow> disk_info" where
  "parse_serial info_output di =
     (case search (labelled_line ''Serial Number:'') info_output of
        Some serial_match \<Rightarrow> di\<lparr>SerialNumber := group serial_match 1\<rparr>
      | None \<Rightarrow> di)"

definition detect_ssd :: "string \<Rightarrow> disk_info \<Rightarrow> disk_info" where
  "detect_ssd info_output di =
     (if str_in ''Solid State Device'' info_output
         \<or> str_in ''Rotation Rate: Solid State'' info_output
         \<or> str_in ''NVMe'' info_output
      then di\<lparr>IsSSD := True\<rparr>
      else if str_in ''SSD'' (Model di) then di\<lparr>IsSSD := True\<rparr>
      else di)"

definition health_regex :: regex where
  "health_regex =
     cat [Lit ''SMART overall-health self-assessment test result: '', Group 1 (Plus dot)]"

definition nvme_health_regex :: regex where
  "nvme_health_regex =
     cat [Lit ''SMART/Health Information'', Star dotall, Plus is_space,
          Group 1 (cat [Star dotall, Group 2 (Alt (Lit ''normal'') (Lit ''failed'')),
                        Star dotall])]"

definition parse_health :: "string option \<Rightarrow> disk_info \<Rightarrow> disk_info" where
  "parse_health health_output di =
     (case truthy health_output of
        None \<Rightarrow> di
      | Some health_text \<Rightarrow>
          (case search health_regex health_text of
             Some health_match \<Rightarrow> di\<lparr>HealthStatus := group health_match 1\<rparr>
           | None \<Rightarrow>
               (case search nvme_health_regex health_text of
                  Some nvme_health_match \<Rightarrow>
                    if str_in ''normal'' (lower (group nvme_health_match 1))
                    then di\<lparr>HealthStatus := ''PASSED''\<rparr>
                    else di\<lparr>HealthStatus := ''FAILED''\<rparr>
                | None \<Rightarrow> di)))"

text \<open>The pattern \<^verbatim>\<open>NAME.*?(\d+)\<close>, and \<^verbatim>\<open>(NAME1|NAME2).*?(\d+)\<close>.\<close>

definition row_regex :: "string \<Rightarrow> regex" where
  "row_regex name = cat [Lit name, LazyStar dot, Group 1 (Plus is_digit)]"

definition row2_regex :: "string \<Rightarrow> string \<Rightarrow> regex" where
  "row2_regex name1 name2 =
     cat [Group 1 (Alt (Lit name1) (Lit name2)), LazyStar dot, Group 2 (Plus is_digit)]"

definition nvme_temp_regex :: regex where
  "nvme_temp_regex =
     cat [Lit ''Temperature:'', Plus is_space, Group 1 (Plus is_digit), Plus is_space,
          Lit ''Celsius'']"

definition parse_temp :: "string \<Rightarrow> attributes \<Rightarrow> attributes" where
  "parse_temp attr_output a =
     (case search (row_regex ''Temperature_Celsius'') attr_output of
        Some temp_match \<Rightarrow> a\<lparr>Temperature := celsius (group temp_match 1)\<rparr>
      | None \<Rightarrow>
          (case search (row2_regex ''Airflow_Temperature_Cel'' ''Temperature'') attr_output of
             Some alt_temp_match \<Rightarrow> a\<lparr>Temperature := celsius (group alt_temp_match 2)\<rparr>
           | None \<Rightarrow>
               (case search nvme_temp_regex attr_output of
                  Some nvme_temp_match \<Rightarrow>
                    a\<lparr>Temperature := celsius (group nvme_temp_match 1)\<rparr>
                | None \<Rightarrow> a)))"

definition nvme_poh_regex :: regex where
  "nvme_poh_regex = cat [Lit ''Power On Hours:'', Plus is_space, Group 1 (Plus is_digit)]"

definition parse_poh :: "string \<Rightarrow> attributes \<Rightarrow> attributes" where
  "parse_poh attr_output a =
     (case search (row_regex ''Power_On_Hours'') attr_output of
        Some poh_match \<Rightarrow> a\<lparr>PowerOnTime := parse_power_on_hours (group poh_match 1)\<rparr>
      | None \<Rightarrow>
          (case search nvme_poh_regex attr_output of
             Some nvme_poh_match \<Rightarrow>
               a\<lparr>PowerOnTime := parse_power_on_hours (group nvme_poh_match 1)\<rparr>
           | None \<Rightarrow> a))"

definition parse_realloc :: "string \<Rightarrow> attributes \<Rightarrow> attributes" where
  "parse_realloc attr_output a =
     (case search (row_regex ''Reallocated_Sector_Ct'') attr_output of
        Some realloc_match \<Rightarrow> a\<lparr>ReallocatedSectors := group realloc_match 1\<rparr>
      | None \<Rightarrow> a)"

definition parse_pending :: "string \<Rightarrow> attributes \<Rightarrow> attributes" where
  "parse_pending attr_output a =
     (case search (row_regex ''Current_Pending_Sector'') attr_output of
        Some pending_match \<Rightarrow> a\<lparr>PendingSectors := group pending_match 1\<rparr>
      | None \<Rightarrow> a)"

definition parse_uncorr :: "string \<Rightarrow> attributes \<Rightarrow> attributes" where
  "parse_uncorr attr_output a =
     (case search (row2_regex ''Offline_Uncorrectable'' ''Reported_Uncorrect'') attr_output of
        Some uncorr_match \<Rightarrow> a\<lparr>UncorrectableSectors := group uncorr_match 2\<rparr>
      | None \<Rightarrow> a)"

definition parse_hdd :: "string \<Rightarrow> attributes \<Rightarrow> attributes" where
  "parse_hdd attr_output a = parse_uncorr attr_output (parse_pending attr_output (parse_realloc attr_output a))"

definition wear_regex :: regex where
  "wear_regex = row2_regex ''Wear_Leveling_Count'' ''Media_Wearout_Indicator''"

definition nvme_life_regex :: regex where
  "nvme_life_regex =
     cat [Lit ''Percentage Used:'', Plus is_space, Group 1 (Plus is_digit), Lit ''%'']"

definition parse_life :: "string \<Rightarrow> attributes \<Rightarrow> attributes" where
  "parse_life attr_output a =
     (case search wear_regex attr_output of
        Some wear_match \<Rightarrow>
          if str_in ''Media_Wearout_Indicator'' (group wear_match 1)
          then (case py_int (group wear_match 2) of
                  Some v \<Rightarrow> a\<lparr>LifeRemaining := str_int (100 - v) @ ''%''\<rparr>
                | None \<Rightarrow> a\<lparr>LifeRemaining := group wear_match 2 @ ''%''\<rparr>)
          else a\<lparr>LifeRemaining := group wear_match 2 @ ''%''\<rparr>
      | None \<Rightarrow>
          (case search nvme_life_regex attr_output of
             Some nvme_life_match \<Rightarrow>
               (case py_int (group nvme_life_match 1) of
                  Some v \<Rightarrow> a\<lparr>LifeRemaining := str_int (100 - v) @ ''%''\<rparr>
                | None \<Rightarrow> a)
           | None \<Rightarrow> a))"

definition data_units_regex :: "string \<Rightarrow> regex" where
  "data_units_regex label = cat [Lit label, Plus is_space, Group 1 (Plus digit_or_comma)]"

text \<open>
  The NVMe branch of the byte totals: the commas are removed, the count is multiplied by
  512 * 1024, and the value is stored unless \<^verbatim>\<open>int\<close> or the division raises.
\<close>

definition data_units_to_tb :: "world \<Rightarrow> string \<Rightarrow> string option" where
  "data_units_to_tb w units =
     (case py_int (filter (\<lambda>c. c \<noteq> CHR '','') units) of
        None \<Rightarrow> None
      | Some n \<Rightarrow>
          (case tb_text w (data_unit_bytes n) of
             None \<Rightarrow> None
           | Some tb_value \<Rightarrow> Some (tb_value @ '' TB'')))"

definition parse_written :: "world \<Rightarrow> string \<Rightarrow> attributes \<Rightarrow> attributes" where
  "parse_written w attr_output a =
     (case search (row_regex ''Total_LBAs_Written'') attr_output of
        Some written_match \<Rightarrow> a\<lparr>TotalWritten := parse_lba_to_tb w (group written_match 1)\<rparr>
      | None \<Rightarrow>
          (case search (data_units_regex ''Data Units Written:'') attr_output of
             Some nvme_written_match \<Rightarrow>
               (case data_units_to_tb w (group nvme_written_match 1) of
                  Some t \<Rightarrow> a\<lparr>TotalWritten := t\<rparr>
                | None \<Rightarrow> a)
           | None \<Rightarrow> a))"

definition parse_read :: "world \<Rightarrow> string \<Rightarrow> attributes \<Rightarrow> attributes" where
  "parse_read w attr_output a =
     (case search (row_regex ''Total_LBAs_Read'') attr_output of
        Some read_match \<Rightarrow> a\<lparr>TotalRead := parse_lba_to_tb w (group read_match 1)\<rparr>
      | None \<Rightarrow>
          (case search (data_units_regex ''Data Units Read:'') attr_output of
             Some nvme_read_match \<Rightarrow>
               (case data_units_to_tb w (group nvme_read_match 1) of
                  Some t \<Rightarrow> a\<lparr>TotalRead := t\<rparr>
                | None \<Rightarrow> a)
           | None \<Rightarrow> a))"

definition parse_ssd :: "world \<Rightarrow> string \<Rightarrow> attributes \<Rightarrow> attributes" where
  "parse_ssd w attr_output a = parse_read w attr_output (parse_written w attr_output (parse_life attr_output a))"

definition parse_attributes :: "world \<Rightarrow> string \<Rightarrow> disk_info \<Rightarrow> disk_info" where
  "parse_attributes w attr_output di =
     (let a = parse_poh attr_output (parse_temp attr_output (Attributes di));
          a = (if \<not> IsSSD di then parse_hdd attr_output a else a);
          a = (if IsSSD di then parse_ssd w attr_output a else a)
      in di\<lparr>Attributes := a\<rparr>)"

definition get_disk_info :: "world \<Rightarrow> string \<Rightarrow> string \<Rightarrow> disk_info" where
  "get_disk_info w smartctl_path disk_id =
     (case truthy (run_smartctl w smartctl_path [''-i'', disk_id]) of
        None \<Rightarrow> new_disk_info
      | Some info_output \<Rightarrow>
          (let di = detect_ssd info_output
                      (parse_serial info_output (parse_model info_output new_disk_info));
               di = parse_health (run_smartctl w smartctl_path [''-H'', disk_id]) di
           in case truthy (run_smartctl w smartctl_path [''-A'', disk_id]) of
                None \<Rightarrow> di
              | Some attr_output \<Rightarrow> parse_attributes w attr_output di))"

section \<open>Classification: the loop of \<^verbatim>\<open>main\<close>\<close>

text \<open>
  An entry of \<^verbatim>\<open>critical_issues\<close> is one of eight f-strings. It is kept here as the
  template that produced it with the three values the template interpolates (the disk, the
  model, the attribute text); \<open>issue_text\<close> is the string the program appends. The
  program has no severity field: the words \<^verbatim>\<open>critical\<close> and \<^verbatim>\<open>warning\<close> are part of the
  temperature and life messages, and \<open>severity_of\<close> reads them off; the health and sector
  messages, which carry neither word, count as critical.
\<close>

datatype issue_kind =
    HealthIssue
  | TemperatureCritical
  | TemperatureWarning
  | LifeCritical
  | LifeWarning
  | ReallocatedIssue
  | PendingIssue
  | UncorrectableIssue

datatype issue = Issue issue_kind string string string

datatype severity = Warning | Critical

fun kind :: "issue \<Rightarrow> issue_kind" where
  "kind (Issue k disk_id model v) = k"

fun severity_of :: "issue_kind \<Rightarrow> severity" where
  "severity_of TemperatureWarning = Warning"
| "severity_of LifeWarning = Warning"
| "severity_of k = Critical"

fun issue_text :: "issue \<Rightarrow> string" where
  "issue_text (Issue k disk_id model v) =
     ''Disk '' @ disk_id @ '' ('' @ model @ '') '' @
     (case k of
        HealthIssue \<Rightarrow> ''health status: '' @ v
      | TemperatureCritical \<Rightarrow> ''temperature critical: '' @ v
      | TemperatureWarning \<Rightarrow> ''temperature warning: '' @ v
      | LifeCritical \<Rightarrow> ''SSD life critically low: '' @ v
      | LifeWarning \<Rightarrow> ''SSD life warning: '' @ v
      | ReallocatedIssue \<Rightarrow> ''has '' @ v @ '' reallocated sectors''
      | PendingIssue \<Rightarrow> ''has '' @ v @ '' pending sectors''
      | UncorrectableIssue \<Rightarrow> ''has '' @ v @ '' uncorrectable sectors'')"

definition is_temperature :: "issue \<Rightarrow> bool" where
  "is_temperature i = (kind i = TemperatureCritical \<or> kind i = TemperatureWarning)"

definition is_life :: "issue \<Rightarrow> bool" where
  "is_life i = (kind i = LifeCritical \<or> kind i = LifeWarning)"

text \<open>
  A step of the loop body appends issues and may raise. Its value is the issues it
  appended and the exception, if any; what was appended before an exception stays in the
  list, as it does in the program.
\<close>

datatype exn = ValueError | Exception string

type_synonym step = "issue list \<times> exn option"

definition and_then :: "step \<Rightarrow> step \<Rightarrow> step" where
  "and_then a b = (case snd a of Some e \<Rightarrow> a | None \<Rightarrow> (fst a @ fst b, snd b))"

definition check_health :: "string \<Rightarrow> disk_info \<Rightarrow> step" where
  "check_health disk_id di =
     (if HealthStatus di \<noteq> ''PASSED'' \<and> HealthStatus di \<noteq> ''Unknown''
      then ([Issue HealthIssue disk_id (Model di) (HealthStatus di)], None)
      else ([], None))"

definition check_temperature :: "string \<Rightarrow> disk_info \<Rightarrow> step" where
  "check_temperature disk_id di =
     (case search (Group 1 (Plus is_digit)) (Temperature (Attributes di)) of
        None \<Rightarrow> ([], None)
      | Some temp_match \<Rightarrow>
          (case py_int (group temp_match 1) of
             None \<Rightarrow> ([], Some ValueError)
           | Some temp \<Rightarrow>
               if temp \<ge> 60
               then ([Issue TemperatureCritical disk_id (Model di)
                        (Temperature (Attributes di))], None)
               else if temp \<ge> 50
               then ([Issue TemperatureWarning disk_id (Model di)
                        (Temperature (Attributes di))], None)
               else ([], None)))"

definition check_life :: "string \<Rightarrow> disk_info \<Rightarrow> step" where
  "check_life disk_id di =
     (case search (cat [Group 1 (Plus is_digit), Lit ''%'']) (LifeRemaining (Attributes di)) of
        None \<Rightarrow> ([], None)
      | Some life_match \<Rightarrow>
          (case py_int (group life_match 1) of
             None \<Rightarrow> ([], Some ValueError)
           | Some life_remaining \<Rightarrow>
               if life_remaining \<le> 10
               then ([Issue LifeCritical disk_id (Model di)
                        (LifeRemaining (Attributes di))], None)
               else if life_remaining \<le> 20
               then ([Issue LifeWarning disk_id (Model di)
                        (LifeRemaining (Attributes di))], None)
               else ([], None)))"

text \<open>
  The three sector checks share one shape:
  \<^verbatim>\<open>v != "N/A" and v.isdigit() and int(v) > 0\<close>, evaluated left to right.
\<close>

definition check_sectors :: "issue_kind \<Rightarrow> string \<Rightarrow> disk_info \<Rightarrow> string \<Rightarrow> step" where
  "check_sectors k disk_id di v =
     (if v \<noteq> ''N/A'' \<and> isdigit v
      then (case py_int v of
              None \<Rightarrow> ([], Some ValueError)
            | Some n \<Rightarrow> if n > 0 then ([Issue k disk_id (Model di) v], None) else ([], None))
      else ([], None))"

definition check_disk :: "string \<Rightarrow> disk_info \<Rightarrow> step" where
  "check_disk disk_id di =
     and_then (check_health disk_id di)
    (and_then (check_temperature disk_id di)
       (if IsSSD di then check_life disk_id di
        else and_then (check_sectors ReallocatedIssue disk_id di
                         (ReallocatedSectors (Attributes di)))
            (and_then (check_sectors PendingIssue disk_id di
                         (PendingSectors (Attributes di)))
                      (check_sectors UncorrectableIssue disk_id di
                         (UncorrectableSectors (Attributes di))))))"

text \<open>
  The \<^verbatim>\<open>for\<close> loop with its \<^verbatim>\<open>try\<close>. In the program the record comes from
  \<^verbatim>\<open>get_disk_info\<close>, which raises nothing in this model; the loop is written over any
  extraction \<open>extract\<close>, which may raise (\<open>Inl\<close>), so that the handler has something to
  catch. \<open>main\<close> below runs it with \<^verbatim>\<open>get_disk_info\<close>.
\<close>

fun process_disks ::
  "(string \<Rightarrow> exn + disk_info) \<Rightarrow> string list \<Rightarrow> issue list \<Rightarrow> issue list" where
  "process_disks extract [] critical_issues = critical_issues"
| "process_disks extract (disk_id # disk_ids) critical_issues =
     (case extract disk_id of
        Inl e \<Rightarrow> process_disks extract disk_ids critical_issues
      | Inr di \<Rightarrow>
          process_disks extract disk_ids (critical_issues @ fst (check_disk disk_id di)))"

text \<open>The summary: the exit status is 1 when the list is non-empty, 0 otherwise.\<close>

definition summary :: "issue list \<Rightarrow> nat" where
  "summary critical_issues = (if critical_issues \<noteq> [] then 1 else 0)"

definition main :: "world \<Rightarrow> nat" where
  "main w =
     (if \<not> is_admin w then 1
      else case truthy (initialize_smartmontools w) of
             None \<Rightarrow> 1
           | Some smartctl_path \<Rightarrow>
               (let disk_ids = get_physical_disks w smartctl_path
                in if disk_ids = [] then 1
                   else summary (process_disks
                                   (\<lambda>disk_id. Inr (get_disk_info w smartctl_path disk_id))
                                   disk_ids [])))"

section \<open>Fixtures for the concrete cases\<close>

text \<open>
  A machine with one disk, \<^verbatim>\<open>/dev/sda\<close>, whose \<^verbatim>\<open>smartctl\<close> answers the identity, health
  and attribute queries with the three given texts.
\<close>

definition canned :: "string \<Rightarrow> string \<Rightarrow> string \<Rightarrow> world" where
  "canned info health attr =
     \<lparr>is_admin = True, initialize_smartmontools = Some ''smartctl.exe'',
      run_smartctl = (\<lambda>path args.
         if args = [''--scan''] then Some ''/dev/sda -d ata # /dev/sda, ATA device''
         else if args = [''-i'', ''/dev/sda''] then Some info
         else if args = [''-H'', ''/dev/sda''] then Some health
         else if args = [''-A'', ''/dev/sda''] then Some attr
         else None),
      tb_text = (\<lambda>b. None)\<rparr>"

definition with_temperature :: "string \<Rightarrow> disk_info \<Rightarrow> disk_info" where
  "with_temperature t di = di\<lparr>Attributes := (Attributes di)\<lparr>Temperature := t\<rparr>\<rparr>"

definition hdd_box :: world where
  "hdd_box = canned ''Device Model: WDC WD10'' '''' ''Reallocated_Sector_Ct 7''"

definition ssd_box :: world where
  "ssd_box = canned ''Model Number: X NVMe'' ''''
               (''Reallocated_Sector_Ct 7'' @ [CHR 0x0A] @ ''Percentage Used: 85%'')"

definition warm_box :: world where
  "warm_box = canned ''Device Model: WDC WD10'' '''' ''Temperature_Celsius 50''"

definition bare_box :: world where
  "bare_box = canned ''Device Model: WDC WD10'' '''' ''''"

definition flaky_extract :: "string \<Rightarrow> exn + disk_info" where
  "flaky_extract disk_id =
     (if disk_id = ''/dev/sdb'' then Inl (Exception ''device vanished'')
      else Inr (with_temperature (celsius ''61'') new_disk_info))"

definition hours_box :: world where
  "hours_box = canned ''Model Number: X NVMe'' '''' ''Power On Hours: 25''"

definition ata_box :: world where
  "ata_box = canned ''Device Model: WDC WD10'' ''''
     ''  5 Reallocated_Sector_Ct   0x0033   100   100   010    Pre-fail  Always       -       8''"

text \<open>
  An NVMe health report with the given status line, machines that return it, solid-state
  machines with one wear line each, and machines whose floating-point step renders one
  tebibyte as \<^verbatim>\<open>1.0\<close>.
\<close>

definition nvme_health_text :: "string \<Rightarrow> string" where
  "nvme_health_text status = ''SMART/Health Information'' @ [CHR 0x0A] @ status"

definition abnormal_box :: world where
  "abnormal_box = canned ''Model Number: X NVMe'' (nvme_health_text ''abnormal'') ''''"

definition mixed_box :: world where
  "mixed_box = canned ''Model Number: X NVMe'' (nvme_health_text ''failed NORMAL'') ''''"

definition failed_box :: world where
  "failed_box = canned ''Model Number: X NVMe'' (nvme_health_text ''failed'') ''''"

definition wearout_box :: world where
  "wearout_box = canned ''Model Number: X NVMe'' '''' ''Media_Wearout_Indicator: 85''"

definition leveling_box :: world where
  "leveling_box = canned ''Model Number: X NVMe'' '''' ''Wear_Leveling_Count: 97''"

definition percent_box :: world where
  "percent_box = canned ''Model Number: X NVMe'' '''' ''Percentage Used: 85%''"

definition one_tib :: "world \<Rightarrow> world" where
  "one_tib w = w\<lparr>tb_text := (\<lambda>b. if b = 1024 ^ 4 then Some ''1.0'' else None)\<rparr>"

definition lba_box :: world where
  "lba_box = one_tib (canned ''Model Number: X NVMe'' '''' ''Total_LBAs_Written: 2147483648'')"

definition units_box :: world where
  "units_box = one_tib (canned ''Model Number: X NVMe'' '''' ''Data Units Written: 2,097,152'')"

section \<open>Auxiliary notions\<close>

text \<open>The issues one device contributes to the list, and the text a pattern captures.\<close>

definition device_issues :: "(string \<Rightarrow> exn + disk_info) \<Rightarrow> string \<Rightarrow> issue list" where
  "device_issues extract disk_id =
     (case extract disk_id of Inl e \<Rightarrow> [] | Inr di \<Rightarrow> fst (check_disk disk_id di))"

definition captured :: "regex \<Rightarrow> nat \<Rightarrow> string \<Rightarrow> string option" where
  "captured r i s = (case search r s of None \<Rightarrow> None | Some g \<Rightarrow> Some (group g i))"

definition digit_run :: "string \<Rightarrow> bool" where
  "digit_run ds = (ds \<noteq> [] \<and> list_all is_digit ds)"

text \<open>The power-on-hours text that the extraction reads: the legacy row first, else the NVMe line.\<close>

definition poh_value :: "string \<Rightarrow> string option" where
  "poh_value attr_output =
     (case captured (row_regex ''Power_On_Hours'') 1 attr_output of
        Some v \<Rightarrow> Some v
      | None \<Rightarrow> captured nvme_poh_regex 1 attr_output)"

text \<open>The record before the attribute table is read.\<close>

definition identified :: "world \<Rightarrow> string \<Rightarrow> string \<Rightarrow> string \<Rightarrow> disk_info" where
  "identified w smartctl_path disk_id info_output =
     parse_health (run_smartctl w smartctl_path [''-H'', disk_id])
       (detect_ssd info_output
          (parse_serial info_output (parse_model info_output new_disk_info)))"

section \<open>Unfolding sets for evaluation\<close>

lemmas char_defs = is_digit_def is_space_def dot_def dotall_def digit_or_comma_def
  is_linebreak_def

lemmas regex_defs = labelled_line_def health_regex_def nvme_health_regex_def row_regex_def
  row2_regex_def nvme_temp_regex_def nvme_poh_regex_def wear_regex_def nvme_life_regex_def
  data_units_regex_def

lemmas extract_defs = get_disk_info_def truthy_def parse_model_def parse_serial_def
  detect_ssd_def parse_health_def parse_attributes_def parse_temp_def parse_poh_def
  parse_hdd_def parse_realloc_def parse_pending_def parse_uncorr_def parse_ssd_def
  parse_life_def parse_written_def parse_read_def data_units_to_tb_def parse_lba_to_tb_def
  parse_power_on_hours_def new_disk_info_def celsius_def group_def py_int_def digit_val_def
  str_int_def lower_def lower_char_def lba_bytes_def data_unit_bytes_def canned_def

lemmas check_defs = check_disk_def and_then_def check_health_def check_temperature_def
  check_life_def check_sectors_def isdigit_def

section \<open>Facts about the matcher\<close>


lemma takeWhile_run:
  assumes "list_all P ds" and "rest = [] \<or> \<not> P (hd rest)"
  shows "takeWhile P (ds @ rest) = ds"
proof (cases rest)
  case Nil
  with assms(1) show ?thesis by (simp add: list_all_iff)
next
  case (Cons x xs)
  with assms have "\<not> P x" by simp
  with assms(1) Cons show ?thesis by (simp add: list_all_iff takeWhile_tail)
qed

lemma matches_Plus_first:
  assumes "takeWhile P s = ds" and "ds \<noteq> []"
  shows "matches (Plus P) s g =
           (drop (length ds) s, g) # map (\<lambda>n. (drop n s, g)) (rev [1 ..< length ds])"
proof -
  from assms have "1 \<le> length ds" by (cases ds) simp_all
  then have "rev [1 ..< Suc (length ds)] = length ds # rev [1 ..< length ds]" by simp
  with assms(1) show ?thesis by simp
qed

lemma search_digit_run:
  assumes "ds \<noteq> []" and "list_all is_digit ds" and "rest = [] \<or> \<not> is_digit (hd rest)"
  shows "search (Group 1 (Plus is_digit)) (ds @ rest) = Some [1 \<mapsto> ds]"
proof -
  have tw: "takeWhile is_digit (ds @ rest) = ds" using assms(2,3) by (rule takeWhile_run)
  obtain d ds' where ds: "ds = d # ds'" using assms(1) by (cases ds) auto
  have m: "matches (Plus is_digit) (ds @ rest) Map.empty =
           (drop (length ds) (ds @ rest), Map.empty) #
             map (\<lambda>n. (drop n (ds @ rest), Map.empty)) (rev [1 ..< length ds])"
    using tw assms(1) by (rule matches_Plus_first)
  have "search (Group 1 (Plus is_digit)) (d # ds' @ rest) = Some [1 \<mapsto> ds]"
    unfolding search.simps matches.simps(5) using m by (simp add: ds)
  then show ?thesis by (simp add: ds)
qed


lemma search_in_matches:
  "search r s = Some g \<Longrightarrow> \<exists>t rest. (rest, g) \<in> set (matches r t Map.empty)"
proof (induction s)
  case Nil
  show ?case
  proof (cases "matches r [] Map.empty")
    case Nil
    with Nil.prems show ?thesis by simp
  next
    case (Cons m ms)
    with Nil.prems have "(fst m, g) \<in> set (matches r [] Map.empty)"
      by (cases m) simp
    then show ?thesis by blast
  qed
next
  case (Cons c cs)
  show ?case
  proof (cases "matches r (c # cs) Map.empty")
    case Nil
    with Cons show ?thesis by simp
  next
    case (Cons m ms)
    with Cons.prems have "(fst m, g) \<in> set (matches r (c # cs) Map.empty)"
      by (cases m) simp
    then show ?thesis by blast
  qed
qed

lemma matches_Lit_groups: "(rest, g') \<in> set (matches (Lit l) s g) \<Longrightarrow> g' = g"
  by (simp split: if_splits)

lemma matches_Star_groups: "(rest, g') \<in> set (matches (Star P) s g) \<Longrightarrow> g' = g"
  by auto

lemma matches_LazyStar_groups: "(rest, g') \<in> set (matches (LazyStar P) s g) \<Longrightarrow> g' = g"
  by auto

lemma matches_Plus_groups: "(rest, g') \<in> set (matches (Plus P) s g) \<Longrightarrow> g' = g"
  by auto

lemma matches_Seq_mem:
  "(rest, g') \<in> set (matches (Seq a b) s g) \<longleftrightarrow>
     (\<exists>mid gm. (mid, gm) \<in> set (matches a s g) \<and> (rest, g') \<in> set (matches b mid gm))"
  by auto

lemma take_run:
  assumes "1 \<le> n" and "n \<le> length (takeWhile P s)"
  shows "take n s \<noteq> [] \<and> list_all P (take n s)"
proof -
  have "take n s = take n (takeWhile P s)"
  proof -
    have "take n (takeWhile P s @ dropWhile P s) = take n (takeWhile P s)"
      using assms(2) by (simp only: take_append) simp
    then show ?thesis by (simp only: takeWhile_dropWhile_id)
  qed
  moreover have "list_all P (take n (takeWhile P s))"
    by (auto simp: list_all_iff dest: in_set_takeD set_takeWhileD)
  moreover have "take n (takeWhile P s) \<noteq> []" using assms by (cases "takeWhile P s") auto
  ultimately show ?thesis by simp
qed

lemma matches_Group_Plus:
  assumes "(rest, g') \<in> set (matches (Group i (Plus P)) s g)"
  shows "\<exists>ds. g' = g(i \<mapsto> ds) \<and> ds \<noteq> [] \<and> list_all P ds"
proof -
  from assms obtain n where n: "1 \<le> n" "n \<le> length (takeWhile P s)"
    and r: "rest = drop n s" and g': "g' = g(i \<mapsto> take (length s - length rest) s)"
    by auto
  have "length (takeWhile P s) \<le> length s" by (rule length_takeWhile_le)
  with n r have "length s - length rest = n" by simp
  with g' take_run [OF n] show ?thesis by auto
qed

lemma startswith_take: "startswith p s \<Longrightarrow> take (length p) s = p \<and> length p \<le> length s"
  by (induction p s rule: startswith.induct) simp_all

lemma matches_Group_Lit:
  assumes "(rest, g') \<in> set (matches (Group i (Lit l)) s g)"
  shows "g' = g(i \<mapsto> l)"
proof -
  from assms have st: "startswith l s" and r: "rest = drop (length l) s"
    and g': "g' = g(i \<mapsto> take (length s - length rest) s)"
    by (auto split: if_splits)
  from startswith_take [OF st] r have "take (length s - length rest) s = l" by simp
  with g' show ?thesis by simp
qed

lemma matches_Group_Alt_Lit:
  assumes "(rest, g') \<in> set (matches (Group i (Alt (Lit a) (Lit b))) s g)"
  shows "g' = g(i \<mapsto> a) \<or> g' = g(i \<mapsto> b)"
proof -
  from assms have "(rest, g') \<in> set (matches (Group i (Lit a)) s g)
                   \<or> (rest, g') \<in> set (matches (Group i (Lit b)) s g)"
    by auto
  then show ?thesis by (blast dest: matches_Group_Lit)
qed

lemma row_regex_groups:
  assumes "search (row_regex name) s = Some g"
  shows "digit_run (group g 1)"
proof -
  from search_in_matches [OF assms] obtain t rest
    where "(rest, g) \<in> set (matches (row_regex name) t Map.empty)" by blast
  then obtain m1 g1 m2 g2 where "(m1, g1) \<in> set (matches (Lit name) t Map.empty)"
    and "(m2, g2) \<in> set (matches (LazyStar dot) m1 g1)"
    and "(rest, g) \<in> set (matches (Group 1 (Plus is_digit)) m2 g2)"
    unfolding row_regex_def cat.simps matches_Seq_mem by blast
  from matches_Group_Plus [OF this(3)] show ?thesis
    by (auto simp: digit_run_def group_def)
qed

lemma row2_regex_groups:
  assumes "search (row2_regex name1 name2) s = Some g"
  shows "digit_run (group g 2) \<and> (group g 1 = name1 \<or> group g 1 = name2)"
proof -
  from search_in_matches [OF assms] obtain t rest
    where "(rest, g) \<in> set (matches (row2_regex name1 name2) t Map.empty)" by blast
  then obtain m1 g1 m2 g2
    where a: "(m1, g1) \<in> set (matches (Group 1 (Alt (Lit name1) (Lit name2))) t Map.empty)"
    and b: "(m2, g2) \<in> set (matches (LazyStar dot) m1 g1)"
    and c: "(rest, g) \<in> set (matches (Group 2 (Plus is_digit)) m2 g2)"
    unfolding row2_regex_def cat.simps matches_Seq_mem by blast
  from matches_LazyStar_groups [OF b] have "g2 = g1" .
  with matches_Group_Alt_Lit [OF a] matches_Group_Plus [OF c] show ?thesis
    by (auto simp: digit_run_def group_def)
qed

lemma labelled_digits_groups:
  assumes "search (cat [Lit label, Plus is_space, Group 1 (Plus is_digit)]) s = Some g"
  shows "digit_run (group g 1)"
proof -
  from search_in_matches [OF assms] obtain t rest
    where "(rest, g) \<in> set (matches (cat [Lit label, Plus is_space, Group 1 (Plus is_digit)]) t Map.empty)"
    by blast
  then obtain m2 g2 where "(rest, g) \<in> set (matches (Group 1 (Plus is_digit)) m2 g2)"
    unfolding cat.simps matches_Seq_mem by blast
  from matches_Group_Plus [OF this] show ?thesis
    by (auto simp: digit_run_def group_def)
qed

lemma nvme_life_regex_groups:
  assumes "search nvme_life_regex s = Some g"
  shows "digit_run (group g 1)"
proof -
  from search_in_matches [OF assms] obtain t rest
    where "(rest, g) \<in> set (matches nvme_life_regex t Map.empty)" by blast
  then obtain m2 g2 m3 g3 where a: "(m3, g3) \<in> set (matches (Group 1 (Plus is_digit)) m2 g2)"
    and b: "(rest, g) \<in> set (matches (Lit ''%'') m3 g3)"
    unfolding nvme_life_regex_def cat.simps matches_Seq_mem by blast
  from matches_Lit_groups [OF b] have "g = g3" .
  with matches_Group_Plus [OF a] show ?thesis
    by (auto simp: digit_run_def group_def)
qed

lemma digits_only_groups:
  assumes "search (Group 1 (Plus is_digit)) s = Some g"
  shows "digit_run (group g 1)"
proof -
  from search_in_matches [OF assms] obtain t rest
    where "(rest, g) \<in> set (matches (Group 1 (Plus is_digit)) t Map.empty)" by blast
  from matches_Group_Plus [OF this] show ?thesis
    by (auto simp: digit_run_def group_def)
qed

lemma percent_groups:
  assumes "search (cat [Group 1 (Plus is_digit), Lit ''%'']) s = Some g"
  shows "digit_run (group g 1)"
proof -
  from search_in_matches [OF assms] obtain t rest
    where "(rest, g) \<in> set (matches (cat [Group 1 (Plus is_digit), Lit ''%'']) t Map.empty)"
    by blast
  then obtain m g1 where a: "(m, g1) \<in> set (matches (Group 1 (Plus is_digit)) t Map.empty)"
    and b: "(rest, g) \<in> set (matches (Lit ''%'') m g1)"
    unfolding cat.simps matches_Seq_mem by blast
  from matches_Lit_groups [OF b] have "g = g1" .
  with matches_Group_Plus [OF a] show ?thesis
    by (auto simp: digit_run_def group_def)
qed

lemma py_int_digit_run: "digit_run ds \<Longrightarrow> \<exists>n. py_int ds = Some n"
  by (simp add: digit_run_def py_int_def)

lemma digit_run_not_na: "digit_run ds \<Longrightarrow> ds \<noteq> ''N/A'' \<and> ds \<noteq> []"
  by (auto simp: digit_run_def is_digit_def)

lemma nvme_poh_regex_groups: "search nvme_poh_regex s = Some g \<Longrightarrow> digit_run (group g 1)"
  unfolding nvme_poh_regex_def by (rule labelled_digits_groups)

lemma captured_Some: "captured r i s = Some v \<Longrightarrow> \<exists>g. search r s = Some g \<and> v = group g i"
  by (auto simp: captured_def split: option.splits)

lemma captured_None: "captured r i s = None \<longleftrightarrow> search r s = None"
  by (simp add: captured_def split: option.splits)

text \<open>The pattern \<^verbatim>\<open>NAME.*?(\d+)\<close> captures the first run of digits after the name on its line.\<close>

lemma startswith_append: "startswith p (p @ s)"
  by (induction p) simp_all

lemma matches_Lit_Seq:
  "startswith l s \<Longrightarrow> matches (Seq (Lit l) r) s g = matches r (drop (length l) s) g"
  by simp

lemma matches_Lit_Seq_none: "\<not> startswith l s \<Longrightarrow> matches (Seq (Lit l) r) s g = []"
  by simp

lemma matches_LazyStar_Seq:
  "matches (Seq (LazyStar P) r) s g =
     concat (map (\<lambda>n. matches r (drop n s) g) [0 ..< Suc (length (takeWhile P s))])"
  by (simp add: comp_def)

lemma search_first: "matches r s Map.empty = (rest, g) # ys \<Longrightarrow> search r s = Some g"
  by (cases s) simp_all

lemma search_next: "matches r (c # cs) Map.empty = [] \<Longrightarrow> search r (c # cs) = search r cs"
  by simp

lemma matches_Plus_none:
  assumes "s = [] \<or> \<not> P (hd s)"
  shows "matches (Group i (Plus P)) s g = []"
proof -
  from assms have "takeWhile P s = []" by (cases s) auto
  then show ?thesis by simp
qed

lemma matches_Group_Plus_first:
  assumes "takeWhile P s = ds" and "ds \<noteq> []"
  shows "\<exists>ys. matches (Group i (Plus P)) s g = (drop (length ds) s, g(i \<mapsto> ds)) # ys"
proof -
  let ?F = "\<lambda>(rest, g'). (rest, g'(i \<mapsto> take (length s - length rest) s))"
  let ?others = "map (\<lambda>n. (drop n s, g)) (rev [1 ..< length ds])"
  have "length ds \<le> length s" unfolding assms(1) [symmetric] by (rule length_takeWhile_le)
  then have l: "length s - length (drop (length ds) s) = length ds" by simp
  have "take (length ds) s = take (length ds) (takeWhile P s @ dropWhile P s)" by simp
  also have "\<dots> = ds" unfolding assms(1) by (simp only: take_append) simp
  finally have t: "take (length ds) s = ds" .
  have "matches (Group i (Plus P)) s g = map ?F (matches (Plus P) s g)"
    by (simp only: matches.simps(5))
  also have "\<dots> = map ?F ((drop (length ds) s, g) # ?others)"
    by (simp only: matches_Plus_first [OF assms])
  also have "\<dots> = (drop (length ds) s, g(i \<mapsto> ds)) # map ?F ?others"
    by (simp only: list.map prod.case l t)
  finally show ?thesis by (rule exI)
qed

lemma concat_first:
  assumes "\<And>n. n < m \<Longrightarrow> f n = []" and "f m = x # xs" and "m \<le> k"
  shows "\<exists>ys. concat (map f [0 ..< Suc k]) = x # ys"
proof -
  from assms(3) have a: "[0 ..< Suc k] = [0 ..< m] @ [m ..< Suc k]"
    using upt_add_eq_append [of 0 m "Suc k - m"] by simp
  from assms(3) have b: "[m ..< Suc k] = m # [Suc m ..< Suc k]"
    by (simp add: upt_conv_Cons)
  have z: "concat (map f [0 ..< m]) = []" using assms(1) by simp
  have "concat (map f [0 ..< Suc k]) =
          concat (map f [0 ..< m]) @ f m @ concat (map f [Suc m ..< Suc k])"
    unfolding a b by (simp only: map_append concat_append list.map concat.simps)
  then have "concat (map f [0 ..< Suc k]) = x # (xs @ concat (map f [Suc m ..< Suc k]))"
    unfolding z assms(2) by (simp only: append_Nil append_Cons)
  then show ?thesis by (rule exI)
qed

lemma lazy_then_digits:
  assumes pad: "list_all (\<lambda>c. dot c \<and> \<not> is_digit c) pad"
    and ds: "digit_run ds" and rest: "rest = [] \<or> \<not> is_digit (hd rest)"
  shows "\<exists>ys. matches (Seq (LazyStar dot) (Group 1 (Plus is_digit))) (pad @ ds @ rest) g =
               (rest, g(1 \<mapsto> ds)) # ys"
proof -
  let ?t = "pad @ ds @ rest"
  let ?f = "\<lambda>n. matches (Group 1 (Plus is_digit)) (drop n ?t) g"
  let ?k = "length (takeWhile dot ?t)"
  have early: "?f n = []" if "n < length pad" for n
  proof (rule matches_Plus_none)
    from that have "drop n ?t = drop n pad @ ds @ rest" by simp
    moreover from that have "drop n pad \<noteq> []" by simp
    moreover from that have "hd (drop n pad) = pad ! n" by (simp add: hd_drop_conv_nth)
    moreover from pad that have "\<not> is_digit (pad ! n)" by (simp add: list_all_length)
    ultimately show "drop n ?t = [] \<or> \<not> is_digit (hd (drop n ?t))" by simp
  qed
  from ds have dne: "ds \<noteq> []" and dall: "list_all is_digit ds" by (simp_all add: digit_run_def)
  have tw: "takeWhile is_digit (ds @ rest) = ds" using dall rest by (rule takeWhile_run)
  from matches_Group_Plus_first [OF tw dne, of 1 g] obtain zs
    where "matches (Group 1 (Plus is_digit)) (ds @ rest) g = (rest, g(1 \<mapsto> ds)) # zs"
    by auto
  then have here: "?f (length pad) = (rest, g(1 \<mapsto> ds)) # zs" by simp
  have le: "length pad \<le> ?k"
  proof -
    from pad have "\<forall>c \<in> set pad. dot c" by (simp add: list_all_iff)
    then have "takeWhile dot ?t = pad @ takeWhile dot (ds @ rest)"
      by (simp add: takeWhile_append2)
    then show ?thesis by simp
  qed
  from concat_first [of "length pad" ?f, OF early here le]
  show ?thesis unfolding matches_LazyStar_Seq .
qed

lemma row_regex_at_name:
  assumes "list_all (\<lambda>c. dot c \<and> \<not> is_digit c) pad"
    and "digit_run ds" and "rest = [] \<or> \<not> is_digit (hd rest)"
  shows "search (row_regex name) (name @ pad @ ds @ rest) = Some [1 \<mapsto> ds]"
proof -
  let ?s = "name @ pad @ ds @ rest"
  let ?tail = "Seq (LazyStar dot) (Group 1 (Plus is_digit))"
  have r: "row_regex name = Seq (Lit name) ?tail" by (simp add: row_regex_def)
  have sw: "startswith name ?s" by (rule startswith_append)
  have dr: "drop (length name) ?s = pad @ ds @ rest" by simp
  have "matches (row_regex name) ?s Map.empty = matches ?tail (pad @ ds @ rest) Map.empty"
    unfolding r matches_Lit_Seq [OF sw] dr ..
  with lazy_then_digits [OF assms, of Map.empty] obtain ys
    where "matches (row_regex name) ?s Map.empty = (rest, [1 \<mapsto> ds]) # ys"
    by (elim exE) simp
  then show ?thesis by (rule search_first)
qed

lemma search_skip:
  assumes "\<forall>c \<in> set pre. c \<noteq> n"
  shows "search (row_regex (n # ns)) (pre @ s) = search (row_regex (n # ns)) s"
  using assms
proof (induction pre)
  case Nil
  then show ?case by simp
next
  case (Cons c pre)
  have r: "row_regex (n # ns) = Seq (Lit (n # ns)) (Seq (LazyStar dot) (Group 1 (Plus is_digit)))"
    by (simp add: row_regex_def)
  from Cons.prems have "\<not> startswith (n # ns) (c # pre @ s)" by auto
  then have "matches (row_regex (n # ns)) (c # pre @ s) Map.empty = []"
    unfolding r by (rule matches_Lit_Seq_none)
  then have "search (row_regex (n # ns)) (c # pre @ s) = search (row_regex (n # ns)) (pre @ s)"
    by (rule search_next)
  with Cons show ?case by simp
qed

lemma row_regex_first_digit_run:
  assumes "\<forall>c \<in> set pre. c \<noteq> n" and "list_all (\<lambda>c. dot c \<and> \<not> is_digit c) pad"
    and "digit_run ds" and "rest = [] \<or> \<not> is_digit (hd rest)"
  shows "captured (row_regex (n # ns)) 1 (pre @ (n # ns) @ pad @ ds @ rest) = Some ds"
  unfolding captured_def search_skip [OF assms(1)] row_regex_at_name [OF assms(2,3,4)]
  by (simp add: group_def)

lemma blank_is_skipped: "dot (CHR '' '') \<and> \<not> is_digit (CHR '' '')"
  by (simp add: dot_def is_digit_def)

lemma ata_row_flag_digit:
  assumes "\<forall>c \<in> set pre. c \<noteq> CHR ''R''" and "\<forall>c \<in> set pad. c = CHR '' ''"
  shows "captured (row_regex ''Reallocated_Sector_Ct'') 1
           (pre @ ''Reallocated_Sector_Ct'' @ pad @ ''0'' @ CHR ''x'' # rest) = Some ''0''"
proof -
  have p: "list_all (\<lambda>c. dot c \<and> \<not> is_digit c) pad"
    unfolding list_all_iff
  proof
    fix c assume "c \<in> set pad"
    with assms(2) have "c = CHR '' ''" by (rule bspec)
    with blank_is_skipped show "dot c \<and> \<not> is_digit c" by simp
  qed
  have d: "digit_run ''0''" by (simp add: digit_run_def is_digit_def)
  have r: "CHR ''x'' # rest = [] \<or> \<not> is_digit (hd (CHR ''x'' # rest))"
    by (simp add: is_digit_def)
  show ?thesis using assms(1) p d r by (rule row_regex_first_digit_run)
qed

section \<open>Which step appends which issues\<close>

lemma fst_and_then: "fst (and_then a b) = (if snd a = None then fst a @ fst b else fst a)"
  by (simp add: and_then_def split: option.splits)

lemma check_health_kinds: "i \<in> set (fst (check_health disk_id di)) \<Longrightarrow> kind i = HealthIssue"
  by (simp add: check_health_def split: if_splits)

lemma check_temperature_kinds:
  "i \<in> set (fst (check_temperature disk_id di)) \<Longrightarrow>
     kind i = TemperatureCritical \<or> kind i = TemperatureWarning"
  by (simp add: check_temperature_def split: option.splits if_splits)

lemma check_life_kinds:
  "i \<in> set (fst (check_life disk_id di)) \<Longrightarrow> kind i = LifeCritical \<or> kind i = LifeWarning"
  by (simp add: check_life_def split: option.splits if_splits)

lemma check_sectors_kinds: "i \<in> set (fst (check_sectors k disk_id di v)) \<Longrightarrow> kind i = k"
  by (simp add: check_sectors_def split: option.splits if_splits)

lemma filter_none: "(\<And>i. i \<in> set xs \<Longrightarrow> \<not> P i) \<Longrightarrow> filter P xs = []"
  by (simp add: filter_empty_conv)

lemma filter_all: "(\<And>i. i \<in> set xs \<Longrightarrow> P i) \<Longrightarrow> filter P xs = xs"
  by (simp add: filter_id_conv)

lemma temperature_of_health: "filter is_temperature (fst (check_health disk_id di)) = []"
  by (rule filter_none) (auto simp: is_temperature_def dest: check_health_kinds)

lemma temperature_of_temperature:
  "filter is_temperature (fst (check_temperature disk_id di)) = fst (check_temperature disk_id di)"
  by (rule filter_all) (auto simp: is_temperature_def dest: check_temperature_kinds)

lemma temperature_of_life: "filter is_temperature (fst (check_life disk_id di)) = []"
  by (rule filter_none) (auto simp: is_temperature_def dest: check_life_kinds)

lemma temperature_of_sectors:
  "k \<noteq> TemperatureCritical \<Longrightarrow> k \<noteq> TemperatureWarning \<Longrightarrow>
   filter is_temperature (fst (check_sectors k disk_id di v)) = []"
  by (rule filter_none) (auto simp: is_temperature_def dest: check_sectors_kinds)

lemma check_health_no_raise: "snd (check_health disk_id di) = None"
  by (simp add: check_health_def)

lemma temperature_issues:
  "filter is_temperature (fst (check_disk disk_id di)) = fst (check_temperature disk_id di)"
  by (simp add: check_disk_def fst_and_then check_health_no_raise temperature_of_health
      temperature_of_temperature temperature_of_life temperature_of_sectors)

lemma celsius_search:
  assumes "ds \<noteq> []" and "list_all is_digit ds"
  shows "search (Group 1 (Plus is_digit)) (celsius ds) = Some [1 \<mapsto> ds]"
  unfolding celsius_def using assms by (rule search_digit_run) (simp add: is_digit_def)

lemma check_temperature_celsius:
  assumes "Temperature (Attributes di) = celsius ds" and "py_int ds = Some T"
  shows "fst (check_temperature disk_id di) =
           (if T \<ge> 60 then [Issue TemperatureCritical disk_id (Model di) (celsius ds)]
            else if T \<ge> 50 then [Issue TemperatureWarning disk_id (Model di) (celsius ds)]
            else [])"
proof -
  from assms(2) have "ds \<noteq> []" and "list_all is_digit ds"
    by (auto simp: py_int_def split: if_splits)
  then have "search (Group 1 (Plus is_digit)) (celsius ds) = Some [1 \<mapsto> ds]"
    by (rule celsius_search)
  with assms show ?thesis by (simp add: check_temperature_def group_def)
qed

lemma check_temperature_unset:
  "Temperature (Attributes di) = ''N/A'' \<Longrightarrow> check_temperature disk_id di = ([], None)"
  by (simp add: check_temperature_def is_digit_def)

lemma check_temperature_no_raise: "snd (check_temperature disk_id di) = None"
proof (cases "search (Group 1 (Plus is_digit)) (Temperature (Attributes di))")
  case None
  then show ?thesis by (simp add: check_temperature_def)
next
  case (Some g)
  from py_int_digit_run [OF digits_only_groups [OF Some]]
  obtain n where "py_int (group g 1) = Some n" by blast
  with Some show ?thesis by (simp add: check_temperature_def)
qed

lemma check_life_no_raise: "snd (check_life disk_id di) = None"
proof (cases "search (cat [Group 1 (Plus is_digit), Lit ''%'']) (LifeRemaining (Attributes di))")
  case None
  then show ?thesis by (simp add: check_life_def)
next
  case (Some g)
  from py_int_digit_run [OF percent_groups [OF Some]]
  obtain n where "py_int (group g 1) = Some n" by blast
  with Some show ?thesis by (simp add: check_life_def)
qed

section \<open>Facts about the extraction stages\<close>

lemma parse_model_keeps:
  "IsSSD (parse_model t di) = IsSSD di" "HealthStatus (parse_model t di) = HealthStatus di"
  "Attributes (parse_model t di) = Attributes di"
  by (simp_all add: parse_model_def split: option.splits)

lemma parse_serial_keeps:
  "IsSSD (parse_serial t di) = IsSSD di" "HealthStatus (parse_serial t di) = HealthStatus di"
  "Attributes (parse_serial t di) = Attributes di" "Model (parse_serial t di) = Model di"
  by (simp_all add: parse_serial_def split: option.splits)

lemma detect_ssd_keeps:
  "HealthStatus (detect_ssd t di) = HealthStatus di"
  "Attributes (detect_ssd t di) = Attributes di" "Model (detect_ssd t di) = Model di"
  by (simp_all add: detect_ssd_def)

lemma parse_health_keeps:
  "IsSSD (parse_health h di) = IsSSD di" "Attributes (parse_health h di) = Attributes di"
  "Model (parse_health h di) = Model di"
  by (simp_all add: parse_health_def split: option.splits)

lemma parse_attributes_keeps:
  "IsSSD (parse_attributes w t di) = IsSSD di"
  "HealthStatus (parse_attributes w t di) = HealthStatus di"
  "Model (parse_attributes w t di) = Model di"
  by (simp_all add: parse_attributes_def Let_def)

lemma parse_temp_keeps:
  "PowerOnTime (parse_temp t a) = PowerOnTime a"
  "ReallocatedSectors (parse_temp t a) = ReallocatedSectors a"
  "PendingSectors (parse_temp t a) = PendingSectors a"
  "UncorrectableSectors (parse_temp t a) = UncorrectableSectors a"
  "LifeRemaining (parse_temp t a) = LifeRemaining a"
  "TotalWritten (parse_temp t a) = TotalWritten a"
  "TotalRead (parse_temp t a) = TotalRead a"
  by (simp_all add: parse_temp_def split: option.splits)

lemma parse_poh_keeps:
  "Temperature (parse_poh t a) = Temperature a"
  "ReallocatedSectors (parse_poh t a) = ReallocatedSectors a"
  "PendingSectors (parse_poh t a) = PendingSectors a"
  "UncorrectableSectors (parse_poh t a) = UncorrectableSectors a"
  "LifeRemaining (parse_poh t a) = LifeRemaining a"
  "TotalWritten (parse_poh t a) = TotalWritten a"
  "TotalRead (parse_poh t a) = TotalRead a"
  by (simp_all add: parse_poh_def split: option.splits)

lemma parse_hdd_keeps:
  "Temperature (parse_hdd t a) = Temperature a"
  "PowerOnTime (parse_hdd t a) = PowerOnTime a"
  "LifeRemaining (parse_hdd t a) = LifeRemaining a"
  "TotalWritten (parse_hdd t a) = TotalWritten a"
  "TotalRead (parse_hdd t a) = TotalRead a"
  by (simp_all add: parse_hdd_def parse_realloc_def parse_pending_def parse_uncorr_def
      split: option.splits)

lemma parse_life_keeps:
  "Temperature (parse_life t a) = Temperature a"
  "PowerOnTime (parse_life t a) = PowerOnTime a"
  "ReallocatedSectors (parse_life t a) = ReallocatedSectors a"
  "PendingSectors (parse_life t a) = PendingSectors a"
  "UncorrectableSectors (parse_life t a) = UncorrectableSectors a"
  "TotalWritten (parse_life t a) = TotalWritten a"
  "TotalRead (parse_life t a) = TotalRead a"
  by (simp_all add: parse_life_def split: option.splits)

lemma parse_written_keeps:
  "Temperature (parse_written w t a) = Temperature a"
  "PowerOnTime (parse_written w t a) = PowerOnTime a"
  "ReallocatedSectors (parse_written w t a) = ReallocatedSectors a"
  "PendingSectors (parse_written w t a) = PendingSectors a"
  "UncorrectableSectors (parse_written w t a) = UncorrectableSectors a"
  "LifeRemaining (parse_written w t a) = LifeRemaining a"
  "TotalRead (parse_written w t a) = TotalRead a"
  by (simp_all add: parse_written_def split: option.splits)

lemma parse_read_keeps:
  "Temperature (parse_read w t a) = Temperature a"
  "PowerOnTime (parse_read w t a) = PowerOnTime a"
  "ReallocatedSectors (parse_read w t a) = ReallocatedSectors a"
  "PendingSectors (parse_read w t a) = PendingSectors a"
  "UncorrectableSectors (parse_read w t a) = UncorrectableSectors a"
  "LifeRemaining (parse_read w t a) = LifeRemaining a"
  "TotalWritten (parse_read w t a) = TotalWritten a"
  by (simp_all add: parse_read_def split: option.splits)

lemmas stage_keeps = parse_model_keeps parse_serial_keeps detect_ssd_keeps parse_health_keeps
  parse_attributes_keeps parse_temp_keeps parse_poh_keeps parse_hdd_keeps parse_life_keeps
  parse_written_keeps parse_read_keeps

lemma get_disk_info_cases:
  "get_disk_info w p d =
     (case truthy (run_smartctl w p [''-i'', d]) of
        None \<Rightarrow> new_disk_info
      | Some info_output \<Rightarrow>
          (case truthy (run_smartctl w p [''-A'', d]) of
             None \<Rightarrow> identified w p d info_output
           | Some attr_output \<Rightarrow> parse_attributes w attr_output (identified w p d info_output)))"
  by (simp add: get_disk_info_def identified_def Let_def split: option.splits)

lemma identified_attributes: "Attributes (identified w p d t) = Attributes new_disk_info"
  by (simp add: identified_def stage_keeps)

lemma new_attributes:
  "Temperature (Attributes new_disk_info) = ''N/A''"
  "PowerOnTime (Attributes new_disk_info) = ''N/A''"
  "ReallocatedSectors (Attributes new_disk_info) = ''N/A''"
  "PendingSectors (Attributes new_disk_info) = ''N/A''"
  "UncorrectableSectors (Attributes new_disk_info) = ''N/A''"
  "LifeRemaining (Attributes new_disk_info) = ''N/A''"
  "TotalWritten (Attributes new_disk_info) = ''N/A''"
  "TotalRead (Attributes new_disk_info) = ''N/A''"
  "IsSSD new_disk_info = False" "HealthStatus new_disk_info = ''Unknown''"
  "Model new_disk_info = ''Unknown''"
  by (simp_all add: new_disk_info_def)

lemma parse_attributes_ssd:
  "IsSSD di \<Longrightarrow> Attributes (parse_attributes w t di) =
     parse_ssd w t (parse_poh t (parse_temp t (Attributes di)))"
  by (simp add: parse_attributes_def Let_def)

lemma parse_attributes_hdd:
  "\<not> IsSSD di \<Longrightarrow> Attributes (parse_attributes w t di) =
     parse_hdd t (parse_poh t (parse_temp t (Attributes di)))"
  by (simp add: parse_attributes_def Let_def)

lemma hdd_box_record:
  "get_disk_info hdd_box ''smartctl.exe'' ''/dev/sda'' =
     new_disk_info\<lparr>Model := ''WDC WD10'',
       Attributes := (Attributes new_disk_info)\<lparr>ReallocatedSectors := ''7''\<rparr>\<rparr>"
  by (simp add: hdd_box_def extract_defs regex_defs char_defs)

lemma ssd_box_record:
  "get_disk_info ssd_box ''smartctl.exe'' ''/dev/sda'' =
     new_disk_info\<lparr>Model := ''X NVMe'', IsSSD := True,
       Attributes := (Attributes new_disk_info)\<lparr>LifeRemaining := ''15%''\<rparr>\<rparr>"
  by (simp add: ssd_box_def extract_defs regex_defs char_defs)

lemma check_disk_unset:
  assumes "HealthStatus di = ''Unknown''" and "Temperature (Attributes di) = ''N/A''"
    and "LifeRemaining (Attributes di) = ''N/A''"
    and "ReallocatedSectors (Attributes di) = ''N/A''"
    and "PendingSectors (Attributes di) = ''N/A''"
    and "UncorrectableSectors (Attributes di) = ''N/A''"
  shows "check_disk disk_id di = ([], None)"
  using assms by (simp add: check_defs is_digit_def)

lemma no_attribute_text:
  assumes "truthy (run_smartctl w p [''-A'', d]) = None"
  shows "Attributes (get_disk_info w p d) = Attributes new_disk_info"
  using assms by (simp add: get_disk_info_cases identified_attributes split: option.splits)

lemma poh_value_digits:
  assumes "poh_value t = Some v"
  shows "digit_run v"
proof (cases "captured (row_regex ''Power_On_Hours'') 1 t")
  case None
  with assms have "captured nvme_poh_regex 1 t = Some v" by (simp add: poh_value_def)
  from captured_Some [OF this] show ?thesis by (blast dest: nvme_poh_regex_groups)
next
  case (Some u)
  with assms have "captured (row_regex ''Power_On_Hours'') 1 t = Some v"
    by (simp add: poh_value_def)
  from captured_Some [OF this] show ?thesis by (blast dest: row_regex_groups)
qed

lemma parse_poh_value:
  assumes "poh_value t = Some v"
  shows "PowerOnTime (parse_poh t a) = parse_power_on_hours v"
proof (cases "search (row_regex ''Power_On_Hours'') t")
  case None
  with assms have "captured nvme_poh_regex 1 t = Some v"
    by (simp add: poh_value_def captured_def)
  from captured_Some [OF this] None show ?thesis by (auto simp: parse_poh_def)
next
  case (Some g)
  with assms have "v = group g 1" by (simp add: poh_value_def captured_def)
  with Some show ?thesis by (simp add: parse_poh_def)
qed

lemma get_disk_info_common:
  assumes "truthy (run_smartctl w p [''-i'', d]) = Some info"
    and "truthy (run_smartctl w p [''-A'', d]) = Some t"
  shows "PowerOnTime (Attributes (get_disk_info w p d)) =
           PowerOnTime (parse_poh t (parse_temp t (Attributes new_disk_info)))"
    and "Temperature (Attributes (get_disk_info w p d)) =
           Temperature (parse_poh t (parse_temp t (Attributes new_disk_info)))"
proof -
  have "PowerOnTime (Attributes (get_disk_info w p d)) =
           PowerOnTime (parse_poh t (parse_temp t (Attributes new_disk_info)))
        \<and> Temperature (Attributes (get_disk_info w p d)) =
           Temperature (parse_poh t (parse_temp t (Attributes new_disk_info)))"
  proof (cases "IsSSD (identified w p d info)")
    case True
    with assms show ?thesis
      by (simp add: get_disk_info_cases parse_attributes_ssd parse_ssd_def stage_keeps
          identified_attributes)
  next
    case False
    with assms show ?thesis
      by (simp add: get_disk_info_cases parse_attributes_hdd stage_keeps identified_attributes)
  qed
  then show "PowerOnTime (Attributes (get_disk_info w p d)) =
           PowerOnTime (parse_poh t (parse_temp t (Attributes new_disk_info)))"
    and "Temperature (Attributes (get_disk_info w p d)) =
           Temperature (parse_poh t (parse_temp t (Attributes new_disk_info)))"
    by simp_all
qed

lemma parse_power_on_hours_digits:
  assumes "py_int v = Some hours"
  shows "parse_power_on_hours v =
           str_int (hours div 24) @ '' days, '' @ str_int (hours mod 24) @ '' hours''"
proof -
  from assms have "digit_run v" by (simp add: py_int_def digit_run_def split: if_splits)
  then have "v \<noteq> ''N/A''" and "v \<noteq> []" using digit_run_not_na [of v] by simp_all
  then have "parse_power_on_hours v = (case py_int v of
             Some hours \<Rightarrow>
               str_int (hours div 24) @ '' days, '' @ str_int (hours mod 24) @ '' hours''
           | None \<Rightarrow> v)"
    unfolding parse_power_on_hours_def by (simp only: simp_thms if_False)
  with assms show ?thesis by (simp only: option.case)
qed

lemma space_is_no_digit: "\<not> is_digit (CHR '' '')"
  by (simp add: is_digit_def)

lemma rendering_is_not_a_number:
  assumes "digit_run v"
  shows "a @ '' days, '' @ b \<noteq> v"
proof
  assume e: "a @ '' days, '' @ b = v"
  have "CHR '' '' \<in> set (a @ '' days, '' @ b)" by simp
  then have m: "CHR '' '' \<in> set v" unfolding e .
  from assms have "\<forall>c \<in> set v. is_digit c" by (simp add: digit_run_def list_all_iff)
  from this m have "is_digit (CHR '' '')" by (rule bspec)
  with space_is_no_digit show False by (rule notE)
qed

lemma hours_box_value: "poh_value ''Power On Hours: 25'' = Some ''25''"
  by (simp add: poh_value_def captured_def regex_defs char_defs group_def)

lemma hours_box_record:
  "PowerOnTime (Attributes (get_disk_info hours_box ''smartctl.exe'' ''/dev/sda'')) =
     ''1 days, 1 hours''"
  by (simp add: hours_box_def extract_defs regex_defs char_defs)

lemma parse_health_fallback:
  assumes "h \<noteq> []" and "search health_regex h = None"
  shows "HealthStatus (parse_health (Some h) di) =
           (case captured nvme_health_regex 1 h of
              None \<Rightarrow> HealthStatus di
            | Some seg \<Rightarrow> if str_in ''normal'' (lower seg) then ''PASSED'' else ''FAILED'')"
  using assms by (simp add: parse_health_def truthy_def captured_def split: option.splits)

lemma get_disk_info_health:
  assumes "truthy (run_smartctl w p [''-i'', d]) = Some info"
  shows "HealthStatus (get_disk_info w p d) = HealthStatus (identified w p d info)"
  using assms by (simp add: get_disk_info_cases parse_attributes_keeps split: option.splits)

lemma identified_health_fallback:
  assumes "run_smartctl w p [''-H'', d] = Some h" and "h \<noteq> []"
    and "search health_regex h = None"
  shows "HealthStatus (identified w p d info) =
           (case captured nvme_health_regex 1 h of
              None \<Rightarrow> ''Unknown''
            | Some seg \<Rightarrow> if str_in ''normal'' (lower seg) then ''PASSED'' else ''FAILED'')"
proof -
  let ?di = "detect_ssd info (parse_serial info (parse_model info new_disk_info))"
  have u: "HealthStatus ?di = ''Unknown''" by (simp add: stage_keeps new_attributes)
  have "HealthStatus (identified w p d info) = HealthStatus (parse_health (Some h) ?di)"
    by (simp add: identified_def assms(1))
  also have "\<dots> = (case captured nvme_health_regex 1 h of
              None \<Rightarrow> HealthStatus ?di
            | Some seg \<Rightarrow> if str_in ''normal'' (lower seg) then ''PASSED'' else ''FAILED'')"
    using assms(2,3) by (rule parse_health_fallback)
  finally show ?thesis unfolding u .
qed

lemma passed_is_not_failed: "''PASSED'' \<noteq> ''FAILED''" "''Unknown'' \<noteq> ''FAILED''"
  by simp_all

lemma fallback_segments:
  "search health_regex (nvme_health_text ''abnormal'') = None"
  "captured nvme_health_regex 1 (nvme_health_text ''abnormal'') = Some ''abnormal''"
  "search health_regex (nvme_health_text ''failed NORMAL'') = None"
  "captured nvme_health_regex 1 (nvme_health_text ''failed NORMAL'') = Some ''failed NORMAL''"
  "search health_regex (nvme_health_text ''failed'') = None"
  "captured nvme_health_regex 1 (nvme_health_text ''failed'') = Some ''failed''"
  by (simp_all add: nvme_health_text_def captured_def regex_defs char_defs group_def)

lemma segment_tests:
  "str_in ''normal'' (lower ''abnormal'')" "str_in ''normal'' (lower ''failed NORMAL'')"
  "str_in ''failed'' ''failed NORMAL''" "\<not> str_in ''normal'' (lower ''failed'')"
  by (simp_all add: lower_def lower_char_def)

lemma canned_queries:
  "truthy (run_smartctl (canned i h a) ''smartctl.exe'' [''-i'', ''/dev/sda'']) = truthy (Some i)"
  "run_smartctl (canned i h a) ''smartctl.exe'' [''-H'', ''/dev/sda''] = Some h"
  "truthy (run_smartctl (canned i h a) ''smartctl.exe'' [''-A'', ''/dev/sda'']) = truthy (Some a)"
  by (simp_all add: canned_def)

lemma ssd_record_has_identity:
  assumes "IsSSD (get_disk_info w p d)"
  shows "\<exists>info. truthy (run_smartctl w p [''-i'', d]) = Some info"
proof (cases "truthy (run_smartctl w p [''-i'', d])")
  case None
  with assms show ?thesis by (simp add: get_disk_info_cases new_attributes)
next
  case (Some info)
  then show ?thesis by blast
qed

lemma ssd_attributes:
  assumes "IsSSD (get_disk_info w p d)"
    and "truthy (run_smartctl w p [''-A'', d]) = Some t"
  shows "Attributes (get_disk_info w p d) =
           parse_ssd w t (parse_poh t (parse_temp t (Attributes new_disk_info)))"
proof -
  from ssd_record_has_identity [OF assms(1)] obtain info
    where i: "truthy (run_smartctl w p [''-i'', d]) = Some info" ..
  from i assms(2) have g: "get_disk_info w p d = parse_attributes w t (identified w p d info)"
    by (simp add: get_disk_info_cases)
  with assms(1) have "IsSSD (identified w p d info)" by (simp add: parse_attributes_keeps)
  then show ?thesis unfolding g by (simp add: parse_attributes_ssd identified_attributes)
qed

lemma ssd_life:
  assumes "IsSSD (get_disk_info w p d)"
    and "truthy (run_smartctl w p [''-A'', d]) = Some t"
  shows "LifeRemaining (Attributes (get_disk_info w p d)) =
           LifeRemaining (parse_life t (parse_poh t (parse_temp t (Attributes new_disk_info))))"
  unfolding ssd_attributes [OF assms] by (simp add: parse_ssd_def stage_keeps)

lemma wear_names:
  "str_in ''Media_Wearout_Indicator'' ''Media_Wearout_Indicator''"
  "\<not> str_in ''Media_Wearout_Indicator'' ''Wear_Leveling_Count''"
  by simp_all

lemma parse_life_wearout:
  assumes "search wear_regex t = Some g" and "group g 1 = ''Media_Wearout_Indicator''"
  shows "\<exists>v. py_int (group g 2) = Some v
             \<and> LifeRemaining (parse_life t a) = str_int (100 - v) @ ''%''"
proof -
  from assms(1) have "digit_run (group g 2)"
    unfolding wear_regex_def by (blast dest: row2_regex_groups)
  from py_int_digit_run [OF this] obtain v where v: "py_int (group g 2) = Some v" ..
  have "LifeRemaining (parse_life t a) = str_int (100 - v) @ ''%''"
    by (simp add: parse_life_def assms v wear_names del: One_nat_def)
  with v show ?thesis by blast
qed

lemma parse_life_leveling:
  assumes "search wear_regex t = Some g" and "group g 1 = ''Wear_Leveling_Count''"
  shows "LifeRemaining (parse_life t a) = group g 2 @ ''%''"
  by (simp add: parse_life_def assms wear_names del: One_nat_def)

lemma startswith_empty: "startswith p [] \<longleftrightarrow> p = []"
  by (cases p) simp_all

lemma row2_no_match_here:
  assumes "\<not> startswith a s" and "\<not> startswith b s"
  shows "matches (row2_regex a b) s g = []"
  using assms by (simp add: row2_regex_def)

lemma row2_no_name_no_match:
  "\<not> str_in a s \<Longrightarrow> \<not> str_in b s \<Longrightarrow> search (row2_regex a b) s = None"
proof (induction s)
  case Nil
  then have "\<not> startswith a []" and "\<not> startswith b []" by (simp_all add: startswith_empty)
  then have "matches (row2_regex a b) [] Map.empty = []" by (rule row2_no_match_here)
  then show ?case by simp
next
  case (Cons c cs)
  from Cons.prems have "\<not> startswith a (c # cs)" and "\<not> startswith b (c # cs)"
    and "\<not> str_in a cs" and "\<not> str_in b cs"
    by simp_all
  with Cons.IH row2_no_match_here [of a "c # cs" b Map.empty] show ?case by simp
qed

lemma parse_life_percentage:
  assumes "\<not> str_in ''Wear_Leveling_Count'' t" and "\<not> str_in ''Media_Wearout_Indicator'' t"
    and "search nvme_life_regex t = Some g"
  shows "\<exists>v. py_int (group g 1) = Some v
             \<and> LifeRemaining (parse_life t a) = str_int (100 - v) @ ''%''"
proof -
  from assms(1,2) have n: "search wear_regex t = None"
    unfolding wear_regex_def by (rule row2_no_name_no_match)
  from py_int_digit_run [OF nvme_life_regex_groups [OF assms(3)]]
  obtain v where v: "py_int (group g 1) = Some v" ..
  have "LifeRemaining (parse_life t a) = str_int (100 - v) @ ''%''"
    by (simp add: parse_life_def n assms(3) v del: One_nat_def)
  with v show ?thesis by blast
qed

lemma life_of_health: "filter is_life (fst (check_health disk_id di)) = []"
  by (rule filter_none) (auto simp: is_life_def dest: check_health_kinds)

lemma life_of_temperature: "filter is_life (fst (check_temperature disk_id di)) = []"
  by (rule filter_none) (auto simp: is_life_def dest: check_temperature_kinds)

lemma life_of_life: "filter is_life (fst (check_life disk_id di)) = fst (check_life disk_id di)"
  by (rule filter_all) (auto simp: is_life_def dest: check_life_kinds)

lemma life_issues:
  "IsSSD di \<Longrightarrow> filter is_life (fst (check_disk disk_id di)) = fst (check_life disk_id di)"
  by (simp add: check_disk_def fst_and_then check_health_no_raise check_temperature_no_raise
      life_of_health life_of_temperature life_of_life)

lemma check_life_15:
  "LifeRemaining (Attributes di) = ''15%'' \<Longrightarrow>
   fst (check_life disk_id di) = [Issue LifeWarning disk_id (Model di) ''15%'']"
  by (simp add: check_life_def is_digit_def group_def py_int_def digit_val_def)

lemma captured_both:
  assumes "captured r i s = Some u" and "captured r j s = Some v"
  shows "\<exists>g. search r s = Some g \<and> group g i = u \<and> group g j = v"
  using assms by (cases "search r s") (simp_all add: captured_def)

lemma life_wearout_case:
  assumes "IsSSD (get_disk_info w p d)"
    and "truthy (run_smartctl w p [''-A'', d]) = Some t"
    and "captured wear_regex 1 t = Some ''Media_Wearout_Indicator''"
    and "captured wear_regex 2 t = Some v"
  shows "\<exists>n. py_int v = Some n
             \<and> LifeRemaining (Attributes (get_disk_info w p d)) = str_int (100 - n) @ ''%''"
proof -
  from captured_both [OF assms(3,4)] obtain g where g: "search wear_regex t = Some g"
    "group g 1 = ''Media_Wearout_Indicator''" "group g 2 = v" by blast
  from parse_life_wearout [OF g(1,2)] g(3) show ?thesis
    unfolding ssd_life [OF assms(1,2)] by simp
qed

lemma life_leveling_case:
  assumes "IsSSD (get_disk_info w p d)"
    and "truthy (run_smartctl w p [''-A'', d]) = Some t"
    and "captured wear_regex 1 t = Some ''Wear_Leveling_Count''"
    and "captured wear_regex 2 t = Some v"
  shows "LifeRemaining (Attributes (get_disk_info w p d)) = v @ ''%''"
proof -
  from captured_both [OF assms(3,4)] obtain g where g: "search wear_regex t = Some g"
    "group g 1 = ''Wear_Leveling_Count''" "group g 2 = v" by blast
  from parse_life_leveling [OF g(1,2)] g(3) show ?thesis
    unfolding ssd_life [OF assms(1,2)] by simp
qed

lemma life_percentage_case:
  assumes "IsSSD (get_disk_info w p d)"
    and "truthy (run_smartctl w p [''-A'', d]) = Some t"
    and "\<not> str_in ''Wear_Leveling_Count'' t" and "\<not> str_in ''Media_Wearout_Indicator'' t"
    and "captured nvme_life_regex 1 t = Some v"
  shows "\<exists>n. py_int v = Some n
             \<and> LifeRemaining (Attributes (get_disk_info w p d)) = str_int (100 - n) @ ''%''"
proof -
  from captured_Some [OF assms(5)] obtain g where g: "search nvme_life_regex t = Some g"
    "v = group g 1" by blast
  from parse_life_percentage [OF assms(3,4) g(1)] g(2) show ?thesis
    unfolding ssd_life [OF assms(1,2)] by simp
qed

lemma life_15_case:
  assumes "IsSSD di" and "LifeRemaining (Attributes di) = ''15%''"
  shows "filter is_life (fst (check_disk disk_id di)) =
           [Issue LifeWarning disk_id (Model di) ''15%'']"
  unfolding life_issues [OF assms(1)] using assms(2) by (rule check_life_15)

lemma wearout_box_record:
  "get_disk_info wearout_box ''smartctl.exe'' ''/dev/sda'' =
     new_disk_info\<lparr>Model := ''X NVMe'', IsSSD := True,
       Attributes := (Attributes new_disk_info)\<lparr>LifeRemaining := ''15%''\<rparr>\<rparr>"
  by (simp add: wearout_box_def extract_defs regex_defs char_defs)

lemma percent_box_record:
  "get_disk_info percent_box ''smartctl.exe'' ''/dev/sda'' =
     new_disk_info\<lparr>Model := ''X NVMe'', IsSSD := True,
       Attributes := (Attributes new_disk_info)\<lparr>LifeRemaining := ''15%''\<rparr>\<rparr>"
  by (simp add: percent_box_def extract_defs regex_defs char_defs)

lemma life_15_record_issues:
  "check_disk ''/dev/sda''
     (new_disk_info\<lparr>Model := ''X NVMe'', IsSSD := True,
        Attributes := (Attributes new_disk_info)\<lparr>LifeRemaining := ''15%''\<rparr>\<rparr>) =
     ([Issue LifeWarning ''/dev/sda'' ''X NVMe'' ''15%''], None)"
  by (simp add: new_disk_info_def check_defs char_defs py_int_def digit_val_def group_def)

lemma wear_captures:
  "captured wear_regex 1 ''Media_Wearout_Indicator: 85'' = Some ''Media_Wearout_Indicator''"
  "captured wear_regex 2 ''Media_Wearout_Indicator: 85'' = Some ''85''"
  "captured wear_regex 1 ''Wear_Leveling_Count: 97'' = Some ''Wear_Leveling_Count''"
  "captured wear_regex 2 ''Wear_Leveling_Count: 97'' = Some ''97''"
  "captured nvme_life_regex 1 ''Percentage Used: 85%'' = Some ''85''"
  "\<not> str_in ''Wear_Leveling_Count'' ''Percentage Used: 85%''"
  "\<not> str_in ''Media_Wearout_Indicator'' ''Percentage Used: 85%''"
  by (simp_all add: captured_def regex_defs char_defs group_def)

lemma life_box_flags:
  "IsSSD (get_disk_info wearout_box ''smartctl.exe'' ''/dev/sda'')"
  "IsSSD (get_disk_info percent_box ''smartctl.exe'' ''/dev/sda'')"
  "IsSSD (get_disk_info leveling_box ''smartctl.exe'' ''/dev/sda'')"
  "truthy (run_smartctl wearout_box ''smartctl.exe'' [''-A'', ''/dev/sda'']) =
     Some ''Media_Wearout_Indicator: 85''"
  "truthy (run_smartctl percent_box ''smartctl.exe'' [''-A'', ''/dev/sda'']) =
     Some ''Percentage Used: 85%''"
  "truthy (run_smartctl leveling_box ''smartctl.exe'' [''-A'', ''/dev/sda'']) =
     Some ''Wear_Leveling_Count: 97''"
  by (simp_all add: wearout_box_def percent_box_def leveling_box_def extract_defs regex_defs
      char_defs)

lemma parse_lba_to_tb_digits:
  assumes "py_int v = Some n"
  shows "parse_lba_to_tb w v =
           (case tb_text w (lba_bytes n) of None \<Rightarrow> v | Some t \<Rightarrow> t @ '' TB'')"
proof -
  from assms have "digit_run v" by (simp add: py_int_def digit_run_def split: if_splits)
  then have "v \<noteq> ''N/A''" and "v \<noteq> []" using digit_run_not_na [of v] by simp_all
  then have "parse_lba_to_tb w v = (case py_int v of
             None \<Rightarrow> v
           | Some n \<Rightarrow>
               (case tb_text w (lba_bytes n) of
                  None \<Rightarrow> v
                | Some tb_value \<Rightarrow> tb_value @ '' TB''))"
    unfolding parse_lba_to_tb_def by (simp only: simp_thms if_False)
  with assms show ?thesis by (simp only: option.case)
qed

lemma parse_written_legacy:
  assumes "captured (row_regex ''Total_LBAs_Written'') 1 t = Some v"
  shows "\<exists>n. py_int v = Some n
             \<and> TotalWritten (parse_written w t a) =
                 (case tb_text w (lba_bytes n) of None \<Rightarrow> v | Some tb \<Rightarrow> tb @ '' TB'')"
proof -
  from captured_Some [OF assms] obtain g
    where g: "search (row_regex ''Total_LBAs_Written'') t = Some g" "v = group g 1" by blast
  from row_regex_groups [OF g(1)] g(2) have "digit_run v" by simp
  from py_int_digit_run [OF this] obtain n where n: "py_int v = Some n" ..
  have "TotalWritten (parse_written w t a) = parse_lba_to_tb w v"
    by (simp add: parse_written_def g del: One_nat_def)
  with n parse_lba_to_tb_digits [OF n, of w] show ?thesis by simp
qed

lemma parse_read_legacy:
  assumes "captured (row_regex ''Total_LBAs_Read'') 1 t = Some v"
  shows "\<exists>n. py_int v = Some n
             \<and> TotalRead (parse_read w t a) =
                 (case tb_text w (lba_bytes n) of None \<Rightarrow> v | Some tb \<Rightarrow> tb @ '' TB'')"
proof -
  from captured_Some [OF assms] obtain g
    where g: "search (row_regex ''Total_LBAs_Read'') t = Some g" "v = group g 1" by blast
  from row_regex_groups [OF g(1)] g(2) have "digit_run v" by simp
  from py_int_digit_run [OF this] obtain n where n: "py_int v = Some n" ..
  have "TotalRead (parse_read w t a) = parse_lba_to_tb w v"
    by (simp add: parse_read_def g del: One_nat_def)
  with n parse_lba_to_tb_digits [OF n, of w] show ?thesis by simp
qed

lemma parse_written_units:
  assumes "captured (row_regex ''Total_LBAs_Written'') 1 t = None"
    and "captured (data_units_regex ''Data Units Written:'') 1 t = Some u"
    and "py_int (filter (\<lambda>c. c \<noteq> CHR '','') u) = Some n"
  shows "TotalWritten (parse_written w t a) =
           (case tb_text w (data_unit_bytes n) of
              None \<Rightarrow> TotalWritten a
            | Some tb \<Rightarrow> tb @ '' TB'')"
proof -
  from assms(1) have l: "search (row_regex ''Total_LBAs_Written'') t = None"
    by (simp add: captured_None)
  from captured_Some [OF assms(2)] obtain g
    where g: "search (data_units_regex ''Data Units Written:'') t = Some g" "u = group g 1"
    by blast
  from assms(3) g(2) have "py_int (filter (\<lambda>c. c \<noteq> CHR '','') (group g 1)) = Some n" by simp
  then show ?thesis
    by (simp add: parse_written_def l g(1) data_units_to_tb_def del: One_nat_def
        split: option.splits)
qed

lemma parse_read_units:
  assumes "captured (row_regex ''Total_LBAs_Read'') 1 t = None"
    and "captured (data_units_regex ''Data Units Read:'') 1 t = Some u"
    and "py_int (filter (\<lambda>c. c \<noteq> CHR '','') u) = Some n"
  shows "TotalRead (parse_read w t a) =
           (case tb_text w (data_unit_bytes n) of
              None \<Rightarrow> TotalRead a
            | Some tb \<Rightarrow> tb @ '' TB'')"
proof -
  from assms(1) have l: "search (row_regex ''Total_LBAs_Read'') t = None"
    by (simp add: captured_None)
  from captured_Some [OF assms(2)] obtain g
    where g: "search (data_units_regex ''Data Units Read:'') t = Some g" "u = group g 1"
    by blast
  from assms(3) g(2) have "py_int (filter (\<lambda>c. c \<noteq> CHR '','') (group g 1)) = Some n" by simp
  then show ?thesis
    by (simp add: parse_read_def l g(1) data_units_to_tb_def del: One_nat_def
        split: option.splits)
qed

lemma ssd_totals:
  assumes "IsSSD (get_disk_info w p d)"
    and "truthy (run_smartctl w p [''-A'', d]) = Some t"
  shows "\<exists>a. TotalWritten a = ''N/A''
           \<and> TotalWritten (Attributes (get_disk_info w p d)) = TotalWritten (parse_written w t a)"
    and "\<exists>a. TotalRead a = ''N/A''
           \<and> TotalRead (Attributes (get_disk_info w p d)) = TotalRead (parse_read w t a)"
proof -
  let ?a = "parse_life t (parse_poh t (parse_temp t (Attributes new_disk_info)))"
  have "TotalWritten ?a = ''N/A''" by (simp add: stage_keeps new_attributes)
  moreover have "TotalWritten (Attributes (get_disk_info w p d)) =
                   TotalWritten (parse_written w t ?a)"
    unfolding ssd_attributes [OF assms] by (simp add: parse_ssd_def stage_keeps)
  ultimately show "\<exists>a. TotalWritten a = ''N/A''
           \<and> TotalWritten (Attributes (get_disk_info w p d)) = TotalWritten (parse_written w t a)"
    by blast
  let ?b = "parse_written w t ?a"
  have "TotalRead ?b = ''N/A''" by (simp add: stage_keeps new_attributes)
  moreover have "TotalRead (Attributes (get_disk_info w p d)) = TotalRead (parse_read w t ?b)"
    unfolding ssd_attributes [OF assms] by (simp add: parse_ssd_def)
  ultimately show "\<exists>a. TotalRead a = ''N/A''
           \<and> TotalRead (Attributes (get_disk_info w p d)) = TotalRead (parse_read w t a)"
    by blast
qed

lemma written_legacy_case:
  assumes "IsSSD (get_disk_info w p d)"
    and "truthy (run_smartctl w p [''-A'', d]) = Some t"
    and "captured (row_regex ''Total_LBAs_Written'') 1 t = Some v"
  shows "\<exists>n. py_int v = Some n
             \<and> TotalWritten (Attributes (get_disk_info w p d)) =
                 (case tb_text w (lba_bytes n) of None \<Rightarrow> v | Some tb \<Rightarrow> tb @ '' TB'')"
proof -
  from ssd_totals(1) [OF assms(1,2)] obtain a
    where a: "TotalWritten (Attributes (get_disk_info w p d)) = TotalWritten (parse_written w t a)"
    by blast
  from parse_written_legacy [OF assms(3), of w a] show ?thesis unfolding a .
qed

lemma read_legacy_case:
  assumes "IsSSD (get_disk_info w p d)"
    and "truthy (run_smartctl w p [''-A'', d]) = Some t"
    and "captured (row_regex ''Total_LBAs_Read'') 1 t = Some v"
  shows "\<exists>n. py_int v = Some n
             \<and> TotalRead (Attributes (get_disk_info w p d)) =
                 (case tb_text w (lba_bytes n) of None \<Rightarrow> v | Some tb \<Rightarrow> tb @ '' TB'')"
proof -
  from ssd_totals(2) [OF assms(1,2)] obtain a
    where a: "TotalRead (Attributes (get_disk_info w p d)) = TotalRead (parse_read w t a)"
    by blast
  from parse_read_legacy [OF assms(3), of w a] show ?thesis unfolding a .
qed

lemma written_units_case:
  assumes "IsSSD (get_disk_info w p d)"
    and "truthy (run_smartctl w p [''-A'', d]) = Some t"
    and "captured (row_regex ''Total_LBAs_Written'') 1 t = None"
    and "captured (data_units_regex ''Data Units Written:'') 1 t = Some u"
    and "py_int (filter (\<lambda>c. c \<noteq> CHR '','') u) = Some n"
  shows "TotalWritten (Attributes (get_disk_info w p d)) =
           (case tb_text w (data_unit_bytes n) of None \<Rightarrow> ''N/A'' | Some tb \<Rightarrow> tb @ '' TB'')"
proof -
  from ssd_totals(1) [OF assms(1,2)] obtain a where na: "TotalWritten a = ''N/A''"
    and a: "TotalWritten (Attributes (get_disk_info w p d)) = TotalWritten (parse_written w t a)"
    by blast
  from parse_written_units [OF assms(3,4,5), of w a] show ?thesis unfolding a na .
qed

lemma read_units_case:
  assumes "IsSSD (get_disk_info w p d)"
    and "truthy (run_smartctl w p [''-A'', d]) = Some t"
    and "captured (row_regex ''Total_LBAs_Read'') 1 t = None"
    and "captured (data_units_regex ''Data Units Read:'') 1 t = Some u"
    and "py_int (filter (\<lambda>c. c \<noteq> CHR '','') u) = Some n"
  shows "TotalRead (Attributes (get_disk_info w p d)) =
           (case tb_text w (data_unit_bytes n) of None \<Rightarrow> ''N/A'' | Some tb \<Rightarrow> tb @ '' TB'')"
proof -
  from ssd_totals(2) [OF assms(1,2)] obtain a where na: "TotalRead a = ''N/A''"
    and a: "TotalRead (Attributes (get_disk_info w p d)) = TotalRead (parse_read w t a)"
    by blast
  from parse_read_units [OF assms(3,4,5), of w a] show ?thesis unfolding a na .
qed

lemma one_tib_values:
  "lba_bytes 2147483648 = 1024 ^ 4" "data_unit_bytes 2097152 = 1024 ^ 4"
  by (simp_all add: lba_bytes_def data_unit_bytes_def)

lemma tib_box_flags:
  "IsSSD (get_disk_info lba_box ''smartctl.exe'' ''/dev/sda'')"
  "IsSSD (get_disk_info units_box ''smartctl.exe'' ''/dev/sda'')"
  "truthy (run_smartctl lba_box ''smartctl.exe'' [''-A'', ''/dev/sda'']) =
     Some ''Total_LBAs_Written: 2147483648''"
  "truthy (run_smartctl units_box ''smartctl.exe'' [''-A'', ''/dev/sda'']) =
     Some ''Data Units Written: 2,097,152''"
  by (simp_all add: lba_box_def units_box_def one_tib_def extract_defs regex_defs char_defs)

lemma tib_captures:
  "captured (row_regex ''Total_LBAs_Written'') 1 ''Total_LBAs_Written: 2147483648'' =
     Some ''2147483648''"
  "captured (row_regex ''Total_LBAs_Written'') 1 ''Data Units Written: 2,097,152'' = None"
  "captured (data_units_regex ''Data Units Written:'') 1 ''Data Units Written: 2,097,152'' =
     Some ''2,097,152''"
  "py_int (filter (\<lambda>c. c \<noteq> CHR '','') ''2,097,152'') = Some 2097152"
  "py_int ''2147483648'' = Some 2147483648"
  by (simp_all add: captured_def regex_defs char_defs group_def py_int_def digit_val_def)

lemma tib_rendering:
  "tb_text lba_box (1024 ^ 4) = Some ''1.0''" "tb_text units_box (1024 ^ 4) = Some ''1.0''"
  by (simp_all add: lba_box_def units_box_def one_tib_def)

section \<open>Facts about the loop\<close>

lemma process_disks_append:
  "process_disks extract disk_ids acc = acc @ concat (map (device_issues extract) disk_ids)"
  by (induction disk_ids arbitrary: acc) (simp_all add: device_issues_def split: sum.splits)

lemma summary_iff: "(summary issues = 1 \<longleftrightarrow> issues \<noteq> []) \<and> (summary issues = 0 \<longleftrightarrow> issues = [])"
  by (simp add: summary_def)

lemma main_scan:
  assumes "is_admin w" and "truthy (initialize_smartmontools w) = Some p"
    and "get_physical_disks w p \<noteq> []"
  shows "main w = summary (process_disks (\<lambda>d. Inr (get_disk_info w p d))
                             (get_physical_disks w p) [])"
  using assms by (simp add: main_def Let_def)

lemma process_disks_empty_iff:
  "process_disks extract disk_ids [] = [] \<longleftrightarrow>
     (\<forall>d \<in> set disk_ids. device_issues extract d = [])"
  by (simp add: process_disks_append)

lemma canned_disks: "get_physical_disks (canned i h a) ''smartctl.exe'' = [''/dev/sda'']"
  by (simp add: get_physical_disks_def canned_def truthy_def splitlines_def first_field_def
      char_defs)

lemma canned_setup:
  "is_admin (canned i h a)" "truthy (initialize_smartmontools (canned i h a)) = Some ''smartctl.exe''"
  by (simp_all add: canned_def truthy_def)

lemma warm_box_issues:
  "fst (check_disk ''/dev/sda'' (get_disk_info warm_box ''smartctl.exe'' ''/dev/sda'')) =
     [Issue TemperatureWarning ''/dev/sda'' ''WDC WD10'' (celsius ''50'')]"
  by (simp add: warm_box_def extract_defs regex_defs check_defs char_defs)

lemma bare_box_issues:
  "fst (check_disk ''/dev/sda'' (get_disk_info bare_box ''smartctl.exe'' ''/dev/sda'')) = []"
  by (simp add: bare_box_def extract_defs regex_defs check_defs char_defs)

lemma single_disk_exit:
  assumes "w = canned i h a"
  shows "main w = summary (fst (check_disk ''/dev/sda'' (get_disk_info w ''smartctl.exe'' ''/dev/sda'')))"
proof -
  have d: "get_physical_disks w ''smartctl.exe'' = [''/dev/sda'']"
    unfolding assms by (rule canned_disks)
  have "main w = summary (process_disks (\<lambda>d. Inr (get_disk_info w ''smartctl.exe'' d))
                             (get_physical_disks w ''smartctl.exe'') [])"
    by (rule main_scan) (simp_all add: assms canned_setup canned_disks)
  then show ?thesis by (simp add: d)
qed

section \<open>Temperature thresholds\<close>

text \<open>
  Claim C2. A record made by the extraction holds the temperature as the text of a
  non-empty run of digits followed by \<^verbatim>\<open> \<degree>C\<close>; let \<open>T\<close> be the integer the digits denote.
  The issues that the loop body appends for such a record contain exactly one temperature
  issue, the critical one, when \<open>T \<ge> 60\<close>; exactly one, the warning, when \<open>50 \<le> T < 60\<close>;
  and none when \<open>T < 50\<close>. A record whose temperature is unset (\<^verbatim>\<open>N/A\<close>) gets no
  temperature issue. This holds whatever the other fields of the record are.
\<close>

theorem temperature_thresholds:
  "(\<forall>disk_id di ds T.
      Temperature (Attributes di) = celsius ds \<and> py_int ds = Some T \<longrightarrow>
      filter is_temperature (fst (check_disk disk_id di)) =
        (if T \<ge> 60 then [Issue TemperatureCritical disk_id (Model di) (celsius ds)]
         else if T \<ge> 50 then [Issue TemperatureWarning disk_id (Model di) (celsius ds)]
         else []))
   \<and> (\<forall>disk_id di.
        Temperature (Attributes di) = ''N/A'' \<longrightarrow>
        filter is_temperature (fst (check_disk disk_id di)) = [])"
  by (simp add: temperature_issues check_temperature_celsius check_temperature_unset)

text \<open>The boundary values 49, 50, 59 and 60, and the unset temperature.\<close>

theorem temperature_thresholds_witness:
  "filter is_temperature
     (fst (check_disk ''/dev/sda'' (with_temperature (celsius ''49'') new_disk_info))) = []
   \<and> filter is_temperature
       (fst (check_disk ''/dev/sda'' (with_temperature (celsius ''50'') new_disk_info))) =
       [Issue TemperatureWarning ''/dev/sda'' ''Unknown'' (celsius ''50'')]
   \<and> filter is_temperature
       (fst (check_disk ''/dev/sda'' (with_temperature (celsius ''59'') new_disk_info))) =
       [Issue TemperatureWarning ''/dev/sda'' ''Unknown'' (celsius ''59'')]
   \<and> filter is_temperature
       (fst (check_disk ''/dev/sda'' (with_temperature (celsius ''60'') new_disk_info))) =
       [Issue TemperatureCritical ''/dev/sda'' ''Unknown'' (celsius ''60'')]
   \<and> filter is_temperature (fst (check_disk ''/dev/sda'' new_disk_info)) = []"
proof -
  have v: "py_int ''49'' = Some 49" "py_int ''50'' = Some 50"
          "py_int ''59'' = Some 59" "py_int ''60'' = Some 60"
    by (simp_all add: py_int_def is_digit_def digit_val_def)
  have t: "\<And>t. Temperature (Attributes (with_temperature t new_disk_info)) = t"
          "\<And>t. Model (with_temperature t new_disk_info) = ''Unknown''"
          "Temperature (Attributes new_disk_info) = ''N/A''"
    by (simp_all add: with_temperature_def new_disk_info_def)
  note th = temperature_thresholds [THEN conjunct1, rule_format]
  note un = temperature_thresholds [THEN conjunct2, rule_format]
  show ?thesis
    using th [of "with_temperature (celsius ''49'') new_disk_info" "''49''" 49 "''/dev/sda''"]
          th [of "with_temperature (celsius ''50'') new_disk_info" "''50''" 50 "''/dev/sda''"]
          th [of "with_temperature (celsius ''59'') new_disk_info" "''59''" 59 "''/dev/sda''"]
          th [of "with_temperature (celsius ''60'') new_disk_info" "''60''" 60 "''/dev/sda''"]
          un [of new_disk_info "''/dev/sda''"]
    by (simp add: v t)
qed

section \<open>Fields of the two device classes\<close>

text \<open>
  Claim C7. Whatever the three texts are, the record that the extraction returns has the
  three sector counters unset (\<^verbatim>\<open>N/A\<close>) when it is flagged solid-state, and has life
  remaining, total written and total read unset when it is not: a field of one class is
  populated only in a record of that class.
\<close>

theorem field_groups_exclusive:
  "(IsSSD (get_disk_info w p d) \<longrightarrow>
      ReallocatedSectors (Attributes (get_disk_info w p d)) = ''N/A''
      \<and> PendingSectors (Attributes (get_disk_info w p d)) = ''N/A''
      \<and> UncorrectableSectors (Attributes (get_disk_info w p d)) = ''N/A'')
   \<and> (\<not> IsSSD (get_disk_info w p d) \<longrightarrow>
      LifeRemaining (Attributes (get_disk_info w p d)) = ''N/A''
      \<and> TotalWritten (Attributes (get_disk_info w p d)) = ''N/A''
      \<and> TotalRead (Attributes (get_disk_info w p d)) = ''N/A'')"
proof (cases "truthy (run_smartctl w p [''-i'', d])")
  case None
  then show ?thesis by (simp add: get_disk_info_cases new_attributes)
next
  case (Some info_output)
  note info = this
  show ?thesis
  proof (cases "truthy (run_smartctl w p [''-A'', d])")
    case None
    with info show ?thesis
      by (simp add: get_disk_info_cases identified_attributes new_attributes)
  next
    case (Some attr_output)
    show ?thesis
    proof (cases "IsSSD (identified w p d info_output)")
      case True
      with info Some show ?thesis
        by (simp add: get_disk_info_cases parse_attributes_keeps parse_attributes_ssd
            parse_ssd_def stage_keeps identified_attributes new_attributes)
    next
      case False
      with info Some show ?thesis
        by (simp add: get_disk_info_cases parse_attributes_keeps parse_attributes_hdd
            stage_keeps identified_attributes new_attributes)
    qed
  qed
qed

theorem field_groups_exclusive_witness:
  "IsSSD (get_disk_info ssd_box ''smartctl.exe'' ''/dev/sda'')
   \<and> ReallocatedSectors (Attributes (get_disk_info ssd_box ''smartctl.exe'' ''/dev/sda'')) = ''N/A''
   \<and> \<not> IsSSD (get_disk_info hdd_box ''smartctl.exe'' ''/dev/sda'')
   \<and> LifeRemaining (Attributes (get_disk_info hdd_box ''smartctl.exe'' ''/dev/sda'')) = ''N/A''"
proof -
  have ssd: "IsSSD (get_disk_info ssd_box ''smartctl.exe'' ''/dev/sda'')"
    by (simp add: ssd_box_record)
  have hdd: "\<not> IsSSD (get_disk_info hdd_box ''smartctl.exe'' ''/dev/sda'')"
    by (simp add: hdd_box_record new_disk_info_def)
  from ssd hdd
    field_groups_exclusive [of ssd_box "''smartctl.exe''" "''/dev/sda''"]
    field_groups_exclusive [of hdd_box "''smartctl.exe''" "''/dev/sda''"]
  show ?thesis by blast
qed

section \<open>A record with nothing set\<close>

text \<open>
  Claim C4. For a record whose health is \<^verbatim>\<open>Unknown\<close> and whose temperature, life remaining
  and three sector counters are unset, the loop body appends nothing and raises nothing,
  so the exit status is 0, whether or not the record is flagged solid-state. In particular
  this is so for the record of a device whose attribute query returns no text and whose
  health stays \<^verbatim>\<open>Unknown\<close>.
\<close>

theorem unset_record_no_issues:
  "(\<forall>disk_id di.
      HealthStatus di = ''Unknown'' \<and> Temperature (Attributes di) = ''N/A''
      \<and> LifeRemaining (Attributes di) = ''N/A''
      \<and> ReallocatedSectors (Attributes di) = ''N/A''
      \<and> PendingSectors (Attributes di) = ''N/A''
      \<and> UncorrectableSectors (Attributes di) = ''N/A'' \<longrightarrow>
      check_disk disk_id di = ([], None) \<and> summary (fst (check_disk disk_id di)) = 0)
   \<and> (\<forall>w p d.
        truthy (run_smartctl w p [''-A'', d]) = None
        \<and> HealthStatus (get_disk_info w p d) = ''Unknown'' \<longrightarrow>
        check_disk d (get_disk_info w p d) = ([], None)
        \<and> summary (process_disks (\<lambda>disk_id. Inr (get_disk_info w p disk_id)) [d] []) = 0)"
  by (simp add: check_disk_unset no_attribute_text new_attributes summary_def)

theorem unset_record_no_issues_witness:
  "check_disk ''/dev/sda'' (get_disk_info bare_box ''smartctl.exe'' ''/dev/sda'') = ([], None)
   \<and> check_disk ''/dev/sda'' new_disk_info = ([], None)
   \<and> check_disk ''/dev/sda'' (new_disk_info\<lparr>IsSSD := True\<rparr>) = ([], None)"
proof -
  note rec = unset_record_no_issues [THEN conjunct1, rule_format]
  note dev = unset_record_no_issues [THEN conjunct2, rule_format]
  have a: "truthy (run_smartctl bare_box ''smartctl.exe'' [''-A'', ''/dev/sda'']) = None"
    by (simp add: bare_box_def canned_def truthy_def)
  have h: "HealthStatus (get_disk_info bare_box ''smartctl.exe'' ''/dev/sda'') = ''Unknown''"
    by (simp add: bare_box_def extract_defs regex_defs char_defs)
  from dev [of bare_box "''smartctl.exe''" "''/dev/sda''"] a h
  have "check_disk ''/dev/sda'' (get_disk_info bare_box ''smartctl.exe'' ''/dev/sda'') = ([], None)"
    by blast
  moreover from rec [of new_disk_info "''/dev/sda''"]
  have "check_disk ''/dev/sda'' new_disk_info = ([], None)"
    by (simp add: new_disk_info_def)
  moreover from rec [of "new_disk_info\<lparr>IsSSD := True\<rparr>" "''/dev/sda''"]
  have "check_disk ''/dev/sda'' (new_disk_info\<lparr>IsSSD := True\<rparr>) = ([], None)"
    by (simp add: new_disk_info_def)
  ultimately show ?thesis by blast
qed

section \<open>The exit status\<close>

text \<open>
  Claim C5. The summary returns 1 exactly when the accumulated list is non-empty and 0
  exactly when it is empty; the severities of the entries play no part. When the scan
  reaches the loop (administrative rights, a path to the utility, at least one disk
  listed), the exit status of \<^verbatim>\<open>main\<close> is the summary of the list accumulated over all
  disks: it is 1 exactly when some disk contributes an issue, and 0 exactly when none
  does.
\<close>

theorem exit_status_follows_issue_list:
  "(\<forall>issues. (summary issues = 1 \<longleftrightarrow> issues \<noteq> []) \<and> (summary issues = 0 \<longleftrightarrow> issues = []))
   \<and> (\<forall>w p. is_admin w \<and> truthy (initialize_smartmontools w) = Some p
             \<and> get_physical_disks w p \<noteq> [] \<longrightarrow>
        main w = summary (process_disks (\<lambda>d. Inr (get_disk_info w p d))
                            (get_physical_disks w p) [])
        \<and> (main w = 1 \<longleftrightarrow>
             (\<exists>d \<in> set (get_physical_disks w p). fst (check_disk d (get_disk_info w p d)) \<noteq> []))
        \<and> (main w = 0 \<longleftrightarrow>
             (\<forall>d \<in> set (get_physical_disks w p). fst (check_disk d (get_disk_info w p d)) = [])))"
proof (intro conjI allI impI)
  fix w p
  assume a: "is_admin w \<and> truthy (initialize_smartmontools w) = Some p
             \<and> get_physical_disks w p \<noteq> []"
  let ?ids = "get_physical_disks w p"
  let ?ex = "\<lambda>d. Inr (get_disk_info w p d) :: exn + disk_info"
  from a show m: "main w = summary (process_disks ?ex ?ids [])" by (simp add: main_scan)
  have e: "process_disks ?ex ?ids [] = [] \<longleftrightarrow>
           (\<forall>d \<in> set ?ids. fst (check_disk d (get_disk_info w p d)) = [])"
    by (simp add: process_disks_empty_iff device_issues_def)
  from m e show "main w = 1 \<longleftrightarrow>
      (\<exists>d \<in> set ?ids. fst (check_disk d (get_disk_info w p d)) \<noteq> [])"
    by (simp add: summary_def)
  from m e show "main w = 0 \<longleftrightarrow>
      (\<forall>d \<in> set ?ids. fst (check_disk d (get_disk_info w p d)) = [])"
    by (simp add: summary_def)
qed (simp_all add: summary_def)

text \<open>A single warning gives exit status 1; no issue gives 0.\<close>

theorem exit_status_follows_issue_list_witness:
  "main warm_box = 1
   \<and> fst (check_disk ''/dev/sda'' (get_disk_info warm_box ''smartctl.exe'' ''/dev/sda'')) =
       [Issue TemperatureWarning ''/dev/sda'' ''WDC WD10'' (celsius ''50'')]
   \<and> severity_of TemperatureWarning = Warning
   \<and> main bare_box = 0"
proof -
  note th = exit_status_follows_issue_list [THEN conjunct2, rule_format]
  have w: "is_admin warm_box \<and> truthy (initialize_smartmontools warm_box) = Some ''smartctl.exe''
           \<and> get_physical_disks warm_box ''smartctl.exe'' \<noteq> []"
    by (simp add: warm_box_def canned_disks canned_setup)
  have b: "is_admin bare_box \<and> truthy (initialize_smartmontools bare_box) = Some ''smartctl.exe''
           \<and> get_physical_disks bare_box ''smartctl.exe'' \<noteq> []"
    by (simp add: bare_box_def canned_disks canned_setup)
  have dw: "get_physical_disks warm_box ''smartctl.exe'' = [''/dev/sda'']"
    by (simp add: warm_box_def canned_disks)
  have db: "get_physical_disks bare_box ''smartctl.exe'' = [''/dev/sda'']"
    by (simp add: bare_box_def canned_disks)
  from th [OF w] have "main warm_box = 1" by (simp add: dw warm_box_issues)
  moreover from th [OF b] have "main bare_box = 0" by (simp add: db bare_box_issues)
  ultimately show ?thesis by (simp add: warm_box_issues)
qed

section \<open>A failing device does not stop the scan\<close>

text \<open>
  Claim C6. The list accumulated over a batch is the concatenation, in order, of what each
  disk contributes: nothing for a disk whose extraction raises, and for every other disk
  all the issues its loop body appended (also those appended before the body raised). In
  a batch of three where the extraction of the second raises, the result is the issues of
  the first followed by the issues of the third.
\<close>

theorem device_failure_is_isolated:
  "(\<forall>extract disk_ids.
      process_disks extract disk_ids [] = concat (map (device_issues extract) disk_ids))
   \<and> (\<forall>extract d1 d2 d3 di1 e di3.
        extract d1 = Inr di1 \<and> extract d2 = Inl e \<and> extract d3 = Inr di3 \<longrightarrow>
        process_disks extract [d1, d2, d3] [] =
          fst (check_disk d1 di1) @ fst (check_disk d3 di3))"
  by (simp add: process_disks_append device_issues_def)

theorem device_failure_is_isolated_witness:
  "flaky_extract ''/dev/sdb'' = Inl (Exception ''device vanished'')
   \<and> process_disks flaky_extract [''/dev/sda'', ''/dev/sdb'', ''/dev/sdc''] [] =
       [Issue TemperatureCritical ''/dev/sda'' ''Unknown'' (celsius ''61''),
        Issue TemperatureCritical ''/dev/sdc'' ''Unknown'' (celsius ''61'')]"
proof -
  let ?di = "with_temperature (celsius ''61'') new_disk_info"
  have x: "flaky_extract ''/dev/sda'' = Inr ?di \<and>
           flaky_extract ''/dev/sdb'' = Inl (Exception ''device vanished'') \<and>
           flaky_extract ''/dev/sdc'' = Inr ?di"
    by (simp add: flaky_extract_def)
  have c: "\<And>d. fst (check_disk d ?di) = [Issue TemperatureCritical d ''Unknown'' (celsius ''61'')]"
    by (simp add: with_temperature_def new_disk_info_def celsius_def check_defs char_defs
        py_int_def digit_val_def group_def)
  from device_failure_is_isolated [THEN conjunct2, rule_format,
         of flaky_extract "''/dev/sda''" ?di "''/dev/sdb''" "Exception ''device vanished''"
            "''/dev/sdc''" ?di] x
  show ?thesis by (simp add: c)
qed

section \<open>Power-on time\<close>

text \<open>
  Claim C8, as the program has it. When the attribute text yields a power-on-hours value
  (the digits captured from the legacy row, else from the NVMe line), the record's
  power-on-time field holds the text \<^verbatim>\<open>D days, R hours\<close>, where \<open>D\<close> and \<open>R\<close> are the
  quotient and the remainder of the hour count by 24. The field never holds the captured
  digits themselves: the rendering into days and hours is the stored state.
\<close>

theorem power_on_time_is_rendered:
  "\<forall>w p d info attr v.
     truthy (run_smartctl w p [''-i'', d]) = Some info
     \<and> truthy (run_smartctl w p [''-A'', d]) = Some attr
     \<and> poh_value attr = Some v \<longrightarrow>
     (\<exists>hours. py_int v = Some hours
        \<and> PowerOnTime (Attributes (get_disk_info w p d)) =
            str_int (hours div 24) @ '' days, '' @ str_int (hours mod 24) @ '' hours''
        \<and> PowerOnTime (Attributes (get_disk_info w p d)) \<noteq> v)"
proof (intro allI impI)
  fix w :: world and p d info attr v
  assume a: "truthy (run_smartctl w p [''-i'', d]) = Some info
     \<and> truthy (run_smartctl w p [''-A'', d]) = Some attr \<and> poh_value attr = Some v"
  then have i: "truthy (run_smartctl w p [''-i'', d]) = Some info"
    and t: "truthy (run_smartctl w p [''-A'', d]) = Some attr"
    and pv: "poh_value attr = Some v"
    by simp_all
  from pv have dr: "digit_run v" by (rule poh_value_digits)
  from py_int_digit_run [OF dr] obtain hours where h: "py_int v = Some hours" ..
  have "PowerOnTime (Attributes (get_disk_info w p d)) =
          PowerOnTime (parse_poh attr (parse_temp attr (Attributes new_disk_info)))"
    using i t by (rule get_disk_info_common(1))
  also have "\<dots> = parse_power_on_hours v" using pv by (rule parse_poh_value)
  also have "\<dots> = str_int (hours div 24) @ '' days, '' @ str_int (hours mod 24) @ '' hours''"
    using h by (rule parse_power_on_hours_digits)
  finally have eq: "PowerOnTime (Attributes (get_disk_info w p d)) =
            str_int (hours div 24) @ '' days, '' @ str_int (hours mod 24) @ '' hours''" .
  from dr have "str_int (hours div 24) @ '' days, '' @ str_int (hours mod 24) @ '' hours'' \<noteq> v"
    by (rule rendering_is_not_a_number)
  then have "PowerOnTime (Attributes (get_disk_info w p d)) \<noteq> v" unfolding eq .
  with h eq show "\<exists>hours. py_int v = Some hours
        \<and> PowerOnTime (Attributes (get_disk_info w p d)) =
            str_int (hours div 24) @ '' days, '' @ str_int (hours mod 24) @ '' hours''
        \<and> PowerOnTime (Attributes (get_disk_info w p d)) \<noteq> v"
    by (intro exI conjI)
qed

theorem power_on_time_is_rendered_witness:
  "py_int ''25'' = Some 25
   \<and> PowerOnTime (Attributes (get_disk_info hours_box ''smartctl.exe'' ''/dev/sda'')) =
       str_int (25 div 24) @ '' days, '' @ str_int (25 mod 24) @ '' hours''"
proof -
  have i: "truthy (run_smartctl hours_box ''smartctl.exe'' [''-i'', ''/dev/sda'']) =
             Some ''Model Number: X NVMe''"
    and a: "truthy (run_smartctl hours_box ''smartctl.exe'' [''-A'', ''/dev/sda'']) =
             Some ''Power On Hours: 25''"
    by (simp_all add: hours_box_def canned_def truthy_def)
  have v: "py_int ''25'' = Some 25" by (simp add: py_int_def is_digit_def digit_val_def)
  from power_on_time_is_rendered [rule_format, of hours_box "''smartctl.exe''" "''/dev/sda''"
      "''Model Number: X NVMe''" "''Power On Hours: 25''" "''25''"] i a hours_box_value
  have "\<exists>hours. py_int ''25'' = Some hours
        \<and> PowerOnTime (Attributes (get_disk_info hours_box ''smartctl.exe'' ''/dev/sda'')) =
            str_int (hours div 24) @ '' days, '' @ str_int (hours mod 24) @ '' hours''
        \<and> PowerOnTime (Attributes (get_disk_info hours_box ''smartctl.exe'' ''/dev/sda'')) \<noteq> ''25''"
    by (simp only: simp_thms)
  then show ?thesis by (simp add: v)
qed

text \<open>
  The claim as the specification states it (the field stores the raw hour count) fails: for
  the line \<^verbatim>\<open>Power On Hours: 25\<close> the parsed value is 25 and the field is
  \<^verbatim>\<open>1 days, 1 hours\<close>.
\<close>

theorem power_on_time_counterexample:
  "poh_value ''Power On Hours: 25'' = Some ''25''
   \<and> PowerOnTime (Attributes (get_disk_info hours_box ''smartctl.exe'' ''/dev/sda'')) \<noteq> ''25''
   \<and> PowerOnTime (Attributes (get_disk_info hours_box ''smartctl.exe'' ''/dev/sda'')) =
       ''1 days, 1 hours''"
  by (simp add: hours_box_value hours_box_record)

section \<open>The reallocated-sector row of an attribute table\<close>

text \<open>
  Claim C1, evaluated on a row as \<^verbatim>\<open>smartctl -A\<close> prints it for an ATA disk, with the
  columns ID, name, flag, value, worst, threshold, type, updated, when-failed and raw
  value; here the raw value is 8. The pattern takes the first run of digits after the
  name, which is the leading \<open>0\<close> of the flag \<^verbatim>\<open>0x0033\<close>: the record holds \<open>0\<close>, no issue
  is appended and the exit status is 0.
\<close>

theorem reallocated_row_yields_flag_digit:
  "ReallocatedSectors (Attributes (get_disk_info ata_box ''smartctl.exe'' ''/dev/sda'')) = ''0''
   \<and> check_disk ''/dev/sda'' (get_disk_info ata_box ''smartctl.exe'' ''/dev/sda'') = ([], None)
   \<and> main ata_box = 0"
proof -
  have r: "get_disk_info ata_box ''smartctl.exe'' ''/dev/sda'' =
     new_disk_info\<lparr>Model := ''WDC WD10'',
       Attributes := (Attributes new_disk_info)\<lparr>ReallocatedSectors := ''0''\<rparr>\<rparr>"
    by (simp add: ata_box_def extract_defs regex_defs char_defs)
  have c: "check_disk ''/dev/sda'' (get_disk_info ata_box ''smartctl.exe'' ''/dev/sda'') = ([], None)"
    unfolding r by (simp add: new_disk_info_def check_defs char_defs py_int_def digit_val_def)
  have m: "main ata_box = 0"
    by (simp add: single_disk_exit [OF ata_box_def] c summary_def)
  have "ReallocatedSectors (Attributes (get_disk_info ata_box ''smartctl.exe'' ''/dev/sda'')) = ''0''"
    unfolding r by simp
  with c m show ?thesis by (intro conjI)
qed

section \<open>Life remaining of a solid-state device\<close>

text \<open>
  Claim C3. For a record flagged solid-state: when the wear pattern matches with the name
  \<^verbatim>\<open>Media_Wearout_Indicator\<close>, life remaining is 100 minus the integer of the captured
  digits; when it matches with the name \<^verbatim>\<open>Wear_Leveling_Count\<close>, life remaining is the
  captured digits themselves; when neither name occurs in the attribute text and the line
  \<^verbatim>\<open>Percentage Used: N%\<close> matches, life remaining is 100 minus \<open>N\<close>. Each is stored
  followed by a percent sign. A solid-state record whose life remaining is \<^verbatim>\<open>15%\<close> gets
  exactly one life issue, the warning. In particular the texts
  \<^verbatim>\<open>Media_Wearout_Indicator: 85\<close> and \<^verbatim>\<open>Percentage Used: 85%\<close> both give \<^verbatim>\<open>15%\<close>, and
  the whole list of issues of either device is the one life warning.
\<close>

theorem ssd_life_remaining:
  "(\<forall>w p d attr v.
      IsSSD (get_disk_info w p d) \<and> truthy (run_smartctl w p [''-A'', d]) = Some attr
      \<and> captured wear_regex 1 attr = Some ''Media_Wearout_Indicator''
      \<and> captured wear_regex 2 attr = Some v \<longrightarrow>
      (\<exists>n. py_int v = Some n
           \<and> LifeRemaining (Attributes (get_disk_info w p d)) = str_int (100 - n) @ ''%''))
   \<and> (\<forall>w p d attr v.
        IsSSD (get_disk_info w p d) \<and> truthy (run_smartctl w p [''-A'', d]) = Some attr
        \<and> captured wear_regex 1 attr = Some ''Wear_Leveling_Count''
        \<and> captured wear_regex 2 attr = Some v \<longrightarrow>
        LifeRemaining (Attributes (get_disk_info w p d)) = v @ ''%'')
   \<and> (\<forall>w p d attr v.
        IsSSD (get_disk_info w p d) \<and> truthy (run_smartctl w p [''-A'', d]) = Some attr
        \<and> \<not> str_in ''Wear_Leveling_Count'' attr \<and> \<not> str_in ''Media_Wearout_Indicator'' attr
        \<and> captured nvme_life_regex 1 attr = Some v \<longrightarrow>
        (\<exists>n. py_int v = Some n
             \<and> LifeRemaining (Attributes (get_disk_info w p d)) = str_int (100 - n) @ ''%''))
   \<and> (\<forall>disk_id di.
        IsSSD di \<and> LifeRemaining (Attributes di) = ''15%'' \<longrightarrow>
        filter is_life (fst (check_disk disk_id di)) =
          [Issue LifeWarning disk_id (Model di) ''15%''])
   \<and> LifeRemaining (Attributes (get_disk_info wearout_box ''smartctl.exe'' ''/dev/sda'')) = ''15%''
   \<and> LifeRemaining (Attributes (get_disk_info percent_box ''smartctl.exe'' ''/dev/sda'')) = ''15%''
   \<and> check_disk ''/dev/sda'' (get_disk_info wearout_box ''smartctl.exe'' ''/dev/sda'') =
       ([Issue LifeWarning ''/dev/sda'' ''X NVMe'' ''15%''], None)
   \<and> check_disk ''/dev/sda'' (get_disk_info percent_box ''smartctl.exe'' ''/dev/sda'') =
       ([Issue LifeWarning ''/dev/sda'' ''X NVMe'' ''15%''], None)"
proof (intro conjI allI impI)
  fix w :: world and p d attr v
  assume "IsSSD (get_disk_info w p d) \<and> truthy (run_smartctl w p [''-A'', d]) = Some attr
      \<and> captured wear_regex 1 attr = Some ''Media_Wearout_Indicator''
      \<and> captured wear_regex 2 attr = Some v"
  then show "\<exists>n. py_int v = Some n
           \<and> LifeRemaining (Attributes (get_disk_info w p d)) = str_int (100 - n) @ ''%''"
    by (elim conjE) (rule life_wearout_case)
next
  fix w :: world and p d attr v
  assume "IsSSD (get_disk_info w p d) \<and> truthy (run_smartctl w p [''-A'', d]) = Some attr
        \<and> captured wear_regex 1 attr = Some ''Wear_Leveling_Count''
        \<and> captured wear_regex 2 attr = Some v"
  then show "LifeRemaining (Attributes (get_disk_info w p d)) = v @ ''%''"
    by (elim conjE) (rule life_leveling_case)
next
  fix w :: world and p d attr v
  assume "IsSSD (get_disk_info w p d) \<and> truthy (run_smartctl w p [''-A'', d]) = Some attr
        \<and> \<not> str_in ''Wear_Leveling_Count'' attr \<and> \<not> str_in ''Media_Wearout_Indicator'' attr
        \<and> captured nvme_life_regex 1 attr = Some v"
  then show "\<exists>n. py_int v = Some n
             \<and> LifeRemaining (Attributes (get_disk_info w p d)) = str_int (100 - n) @ ''%''"
    by (elim conjE) (rule life_percentage_case)
next
  fix disk_id and di :: disk_info
  assume "IsSSD di \<and> LifeRemaining (Attributes di) = ''15%''"
  then show "filter is_life (fst (check_disk disk_id di)) =
          [Issue LifeWarning disk_id (Model di) ''15%'']"
    by (elim conjE) (rule life_15_case)
next
  show "LifeRemaining (Attributes (get_disk_info wearout_box ''smartctl.exe'' ''/dev/sda'')) = ''15%''"
    unfolding wearout_box_record by simp
  show "LifeRemaining (Attributes (get_disk_info percent_box ''smartctl.exe'' ''/dev/sda'')) = ''15%''"
    unfolding percent_box_record by simp
  show "check_disk ''/dev/sda'' (get_disk_info wearout_box ''smartctl.exe'' ''/dev/sda'') =
       ([Issue LifeWarning ''/dev/sda'' ''X NVMe'' ''15%''], None)"
    unfolding wearout_box_record by (rule life_15_record_issues)
  show "check_disk ''/dev/sda'' (get_disk_info percent_box ''smartctl.exe'' ''/dev/sda'') =
       ([Issue LifeWarning ''/dev/sda'' ''X NVMe'' ''15%''], None)"
    unfolding percent_box_record by (rule life_15_record_issues)
qed

theorem ssd_life_remaining_witness:
  "(\<exists>n. py_int ''85'' = Some n
        \<and> LifeRemaining (Attributes (get_disk_info wearout_box ''smartctl.exe'' ''/dev/sda'')) =
            str_int (100 - n) @ ''%'')
   \<and> LifeRemaining (Attributes (get_disk_info leveling_box ''smartctl.exe'' ''/dev/sda'')) =
       ''97%''
   \<and> (\<exists>n. py_int ''85'' = Some n
        \<and> LifeRemaining (Attributes (get_disk_info percent_box ''smartctl.exe'' ''/dev/sda'')) =
            str_int (100 - n) @ ''%'')
   \<and> filter is_life
       (fst (check_disk ''/dev/sda'' (get_disk_info wearout_box ''smartctl.exe'' ''/dev/sda''))) =
       [Issue LifeWarning ''/dev/sda''
          (Model (get_disk_info wearout_box ''smartctl.exe'' ''/dev/sda'')) ''15%'']"
proof (intro conjI)
  note a = ssd_life_remaining [THEN conjunct1, rule_format]
  note b = ssd_life_remaining [THEN conjunct2, THEN conjunct1, rule_format]
  note c = ssd_life_remaining [THEN conjunct2, THEN conjunct2, THEN conjunct1, rule_format]
  note e = ssd_life_remaining [THEN conjunct2, THEN conjunct2, THEN conjunct2, THEN conjunct1,
      rule_format]
  show "\<exists>n. py_int ''85'' = Some n
        \<and> LifeRemaining (Attributes (get_disk_info wearout_box ''smartctl.exe'' ''/dev/sda'')) =
            str_int (100 - n) @ ''%''"
    by (rule a [OF conjI [OF life_box_flags(1) conjI [OF life_box_flags(4)
                 conjI [OF wear_captures(1) wear_captures(2)]]]])
  have "LifeRemaining (Attributes (get_disk_info leveling_box ''smartctl.exe'' ''/dev/sda'')) =
       ''97'' @ ''%''"
    by (rule b [OF conjI [OF life_box_flags(3) conjI [OF life_box_flags(6)
                 conjI [OF wear_captures(3) wear_captures(4)]]]])
  then show "LifeRemaining (Attributes (get_disk_info leveling_box ''smartctl.exe'' ''/dev/sda'')) =
       ''97%''"
    by simp
  show "\<exists>n. py_int ''85'' = Some n
        \<and> LifeRemaining (Attributes (get_disk_info percent_box ''smartctl.exe'' ''/dev/sda'')) =
            str_int (100 - n) @ ''%''"
    by (rule c [OF conjI [OF life_box_flags(2) conjI [OF life_box_flags(5)
                 conjI [OF wear_captures(6) conjI [OF wear_captures(7) wear_captures(5)]]]]])
  show "filter is_life
       (fst (check_disk ''/dev/sda'' (get_disk_info wearout_box ''smartctl.exe'' ''/dev/sda''))) =
       [Issue LifeWarning ''/dev/sda''
          (Model (get_disk_info wearout_box ''smartctl.exe'' ''/dev/sda'')) ''15%'']"
  proof -
    have "LifeRemaining (Attributes (get_disk_info wearout_box ''smartctl.exe'' ''/dev/sda'')) = ''15%''"
      unfolding wearout_box_record by simp
    from e [OF conjI [OF life_box_flags(1) this]] show ?thesis .
  qed
qed

section \<open>Byte totals\<close>

text \<open>
  Claim C9. The legacy conversion multiplies the LBA count by 512 and the NVMe conversion
  multiplies the data-unit count by 512 * 1024, so that 2147483648 LBAs and 2097152 data
  units are both 1024 to the fourth bytes. The extraction of a solid-state record passes
  exactly these products to the floating-point step: the integer of the digits captured
  from the \<^verbatim>\<open>Total_LBAs_Written\<close> or \<^verbatim>\<open>Total_LBAs_Read\<close> row times 512, and otherwise the
  integer of the run captured from the \<^verbatim>\<open>Data Units Written\<close> or \<^verbatim>\<open>Data Units Read\<close> line,
  commas removed, times 512 * 1024. The field holds the rendering of that step followed
  by \<^verbatim>\<open> TB\<close>.
\<close>

theorem byte_conversions:
  "(\<forall>n. lba_bytes n = n * 512) \<and> (\<forall>n. data_unit_bytes n = n * (512 * 1024))
   \<and> lba_bytes 2147483648 = 1024 ^ 4 \<and> data_unit_bytes 2097152 = 1024 ^ 4
   \<and> (\<forall>w p d attr v.
        IsSSD (get_disk_info w p d) \<and> truthy (run_smartctl w p [''-A'', d]) = Some attr
        \<and> captured (row_regex ''Total_LBAs_Written'') 1 attr = Some v \<longrightarrow>
        (\<exists>n. py_int v = Some n
             \<and> TotalWritten (Attributes (get_disk_info w p d)) =
                 (case tb_text w (lba_bytes n) of None \<Rightarrow> v | Some tb \<Rightarrow> tb @ '' TB'')))
   \<and> (\<forall>w p d attr v.
        IsSSD (get_disk_info w p d) \<and> truthy (run_smartctl w p [''-A'', d]) = Some attr
        \<and> captured (row_regex ''Total_LBAs_Read'') 1 attr = Some v \<longrightarrow>
        (\<exists>n. py_int v = Some n
             \<and> TotalRead (Attributes (get_disk_info w p d)) =
                 (case tb_text w (lba_bytes n) of None \<Rightarrow> v | Some tb \<Rightarrow> tb @ '' TB'')))
   \<and> (\<forall>w p d attr u n.
        IsSSD (get_disk_info w p d) \<and> truthy (run_smartctl w p [''-A'', d]) = Some attr
        \<and> captured (row_regex ''Total_LBAs_Written'') 1 attr = None
        \<and> captured (data_units_regex ''Data Units Written:'') 1 attr = Some u
        \<and> py_int (filter (\<lambda>c. c \<noteq> CHR '','') u) = Some n \<longrightarrow>
        TotalWritten (Attributes (get_disk_info w p d)) =
          (case tb_text w (data_unit_bytes n) of None \<Rightarrow> ''N/A'' | Some tb \<Rightarrow> tb @ '' TB''))
   \<and> (\<forall>w p d attr u n.
        IsSSD (get_disk_info w p d) \<and> truthy (run_smartctl w p [''-A'', d]) = Some attr
        \<and> captured (row_regex ''Total_LBAs_Read'') 1 attr = None
        \<and> captured (data_units_regex ''Data Units Read:'') 1 attr = Some u
        \<and> py_int (filter (\<lambda>c. c \<noteq> CHR '','') u) = Some n \<longrightarrow>
        TotalRead (Attributes (get_disk_info w p d)) =
          (case tb_text w (data_unit_bytes n) of None \<Rightarrow> ''N/A'' | Some tb \<Rightarrow> tb @ '' TB''))"
proof (intro conjI allI impI)
  fix n :: int
  show "lba_bytes n = n * 512" by (simp add: lba_bytes_def)
  show "data_unit_bytes n = n * (512 * 1024)" by (simp add: data_unit_bytes_def)
next
  show "lba_bytes 2147483648 = 1024 ^ 4" by (rule one_tib_values)
  show "data_unit_bytes 2097152 = 1024 ^ 4" by (rule one_tib_values)
next
  fix w :: world and p d attr v
  assume "IsSSD (get_disk_info w p d) \<and> truthy (run_smartctl w p [''-A'', d]) = Some attr
        \<and> captured (row_regex ''Total_LBAs_Written'') 1 attr = Some v"
  then show "\<exists>n. py_int v = Some n
             \<and> TotalWritten (Attributes (get_disk_info w p d)) =
                 (case tb_text w (lba_bytes n) of None \<Rightarrow> v | Some tb \<Rightarrow> tb @ '' TB'')"
    by (elim conjE) (rule written_legacy_case)
next
  fix w :: world and p d attr v
  assume "IsSSD (get_disk_info w p d) \<and> truthy (run_smartctl w p [''-A'', d]) = Some attr
        \<and> captured (row_regex ''Total_LBAs_Read'') 1 attr = Some v"
  then show "\<exists>n. py_int v = Some n
             \<and> TotalRead (Attributes (get_disk_info w p d)) =
                 (case tb_text w (lba_bytes n) of None \<Rightarrow> v | Some tb \<Rightarrow> tb @ '' TB'')"
    by (elim conjE) (rule read_legacy_case)
next
  fix w :: world and p d attr u n
  assume "IsSSD (get_disk_info w p d) \<and> truthy (run_smartctl w p [''-A'', d]) = Some attr
        \<and> captured (row_regex ''Total_LBAs_Written'') 1 attr = None
        \<and> captured (data_units_regex ''Data Units Written:'') 1 attr = Some u
        \<and> py_int (filter (\<lambda>c. c \<noteq> CHR '','') u) = Some n"
  then show "TotalWritten (Attributes (get_disk_info w p d)) =
          (case tb_text w (data_unit_bytes n) of None \<Rightarrow> ''N/A'' | Some tb \<Rightarrow> tb @ '' TB'')"
    by (elim conjE) (rule written_units_case)
next
  fix w :: world and p d attr u n
  assume "IsSSD (get_disk_info w p d) \<and> truthy (run_smartctl w p [''-A'', d]) = Some attr
        \<and> captured (row_regex ''Total_LBAs_Read'') 1 attr = None
        \<and> captured (data_units_regex ''Data Units Read:'') 1 attr = Some u
        \<and> py_int (filter (\<lambda>c. c \<noteq> CHR '','') u) = Some n"
  then show "TotalRead (Attributes (get_disk_info w p d)) =
          (case tb_text w (data_unit_bytes n) of None \<Rightarrow> ''N/A'' | Some tb \<Rightarrow> tb @ '' TB'')"
    by (elim conjE) (rule read_units_case)
qed

theorem byte_conversions_witness:
  "TotalWritten (Attributes (get_disk_info lba_box ''smartctl.exe'' ''/dev/sda'')) = ''1.0 TB''
   \<and> TotalWritten (Attributes (get_disk_info units_box ''smartctl.exe'' ''/dev/sda'')) = ''1.0 TB''"
proof -
  note a = byte_conversions [THEN conjunct2, THEN conjunct2, THEN conjunct2, THEN conjunct2,
      THEN conjunct1, rule_format]
  note b = byte_conversions [THEN conjunct2, THEN conjunct2, THEN conjunct2, THEN conjunct2,
      THEN conjunct2, THEN conjunct2, THEN conjunct1, rule_format]
  from a [OF conjI [OF tib_box_flags(1) conjI [OF tib_box_flags(3) tib_captures(1)]]]
  have "\<exists>n. py_int ''2147483648'' = Some n
          \<and> TotalWritten (Attributes (get_disk_info lba_box ''smartctl.exe'' ''/dev/sda'')) =
              (case tb_text lba_box (lba_bytes n) of
                 None \<Rightarrow> ''2147483648'' | Some tb \<Rightarrow> tb @ '' TB'')" .
  then have "TotalWritten (Attributes (get_disk_info lba_box ''smartctl.exe'' ''/dev/sda'')) =
              (case tb_text lba_box (lba_bytes 2147483648) of
                 None \<Rightarrow> ''2147483648'' | Some tb \<Rightarrow> tb @ '' TB'')"
    unfolding tib_captures(5) by simp
  then have l: "TotalWritten (Attributes (get_disk_info lba_box ''smartctl.exe'' ''/dev/sda'')) =
              ''1.0 TB''"
    unfolding one_tib_values tib_rendering by simp
  from b [OF conjI [OF tib_box_flags(2) conjI [OF tib_box_flags(4)
             conjI [OF tib_captures(2) conjI [OF tib_captures(3) tib_captures(4)]]]]]
  have "TotalWritten (Attributes (get_disk_info units_box ''smartctl.exe'' ''/dev/sda'')) =
          (case tb_text units_box (data_unit_bytes 2097152) of
             None \<Rightarrow> ''N/A'' | Some tb \<Rightarrow> tb @ '' TB'')" .
  then have "TotalWritten (Attributes (get_disk_info units_box ''smartctl.exe'' ''/dev/sda'')) =
              ''1.0 TB''"
    unfolding one_tib_values tib_rendering by simp
  with l show ?thesis by (intro conjI)
qed

section \<open>The NVMe health fallback\<close>

text \<open>
  Claim C10. When the health text does not match the overall-health line and the NVMe
  pattern matches, the health status is \<^verbatim>\<open>PASSED\<close> whenever the lower-cased matched
  segment contains \<^verbatim>\<open>normal\<close> anywhere (inside a longer word such as \<^verbatim>\<open>abnormal\<close>, or
  next to \<^verbatim>\<open>failed\<close>), and \<^verbatim>\<open>FAILED\<close> when it does not; and the status is \<^verbatim>\<open>FAILED\<close>
  only if the NVMe pattern matched a segment without \<^verbatim>\<open>normal\<close>.
\<close>

theorem nvme_health_fallback:
  "\<forall>w p d info h.
     truthy (run_smartctl w p [''-i'', d]) = Some info
     \<and> run_smartctl w p [''-H'', d] = Some h \<and> h \<noteq> []
     \<and> search health_regex h = None \<longrightarrow>
     (\<forall>seg. captured nvme_health_regex 1 h = Some seg \<and> str_in ''normal'' (lower seg) \<longrightarrow>
            HealthStatus (get_disk_info w p d) = ''PASSED'')
     \<and> (\<forall>seg. captured nvme_health_regex 1 h = Some seg \<and> \<not> str_in ''normal'' (lower seg) \<longrightarrow>
            HealthStatus (get_disk_info w p d) = ''FAILED'')
     \<and> (HealthStatus (get_disk_info w p d) = ''FAILED'' \<longrightarrow>
          (\<exists>seg. captured nvme_health_regex 1 h = Some seg \<and> \<not> str_in ''normal'' (lower seg)))"
proof (intro allI impI)
  fix w :: world and p d info h
  assume a: "truthy (run_smartctl w p [''-i'', d]) = Some info
     \<and> run_smartctl w p [''-H'', d] = Some h \<and> h \<noteq> []
     \<and> search health_regex h = None"
  then have i: "truthy (run_smartctl w p [''-i'', d]) = Some info"
    and h: "run_smartctl w p [''-H'', d] = Some h" "h \<noteq> []" "search health_regex h = None"
    by simp_all
  have eq: "HealthStatus (get_disk_info w p d) =
           (case captured nvme_health_regex 1 h of
              None \<Rightarrow> ''Unknown''
            | Some seg \<Rightarrow> if str_in ''normal'' (lower seg) then ''PASSED'' else ''FAILED'')"
    using get_disk_info_health [OF i] identified_health_fallback [OF h] by simp
  show "(\<forall>seg. captured nvme_health_regex 1 h = Some seg \<and> str_in ''normal'' (lower seg) \<longrightarrow>
            HealthStatus (get_disk_info w p d) = ''PASSED'')
     \<and> (\<forall>seg. captured nvme_health_regex 1 h = Some seg \<and> \<not> str_in ''normal'' (lower seg) \<longrightarrow>
            HealthStatus (get_disk_info w p d) = ''FAILED'')
     \<and> (HealthStatus (get_disk_info w p d) = ''FAILED'' \<longrightarrow>
          (\<exists>seg. captured nvme_health_regex 1 h = Some seg \<and> \<not> str_in ''normal'' (lower seg)))"
  proof (cases "captured nvme_health_regex 1 h")
    case None
    with eq have "HealthStatus (get_disk_info w p d) = ''Unknown''" by simp
    with None passed_is_not_failed show ?thesis by simp
  next
    case (Some seg)
    show ?thesis
    proof (cases "str_in ''normal'' (lower seg)")
      case True
      with eq Some have "HealthStatus (get_disk_info w p d) = ''PASSED''" by simp
      with Some True passed_is_not_failed show ?thesis by simp
    next
      case False
      with eq Some have "HealthStatus (get_disk_info w p d) = ''FAILED''" by simp
      with Some False show ?thesis by simp
    qed
  qed
qed

theorem nvme_health_fallback_witness:
  "HealthStatus (get_disk_info abnormal_box ''smartctl.exe'' ''/dev/sda'') = ''PASSED''
   \<and> str_in ''failed'' ''failed NORMAL''
   \<and> HealthStatus (get_disk_info mixed_box ''smartctl.exe'' ''/dev/sda'') = ''PASSED''
   \<and> HealthStatus (get_disk_info failed_box ''smartctl.exe'' ''/dev/sda'') = ''FAILED''"
proof -
  note th = nvme_health_fallback [rule_format]
  have i: "truthy (Some ''Model Number: X NVMe'') = Some ''Model Number: X NVMe''"
    by (simp add: truthy_def)
  have n: "\<And>s. nvme_health_text s \<noteq> []" by (simp add: nvme_health_text_def)
  have a: "truthy (run_smartctl abnormal_box ''smartctl.exe'' [''-i'', ''/dev/sda'']) =
             Some ''Model Number: X NVMe''
     \<and> run_smartctl abnormal_box ''smartctl.exe'' [''-H'', ''/dev/sda''] =
             Some (nvme_health_text ''abnormal'')
     \<and> nvme_health_text ''abnormal'' \<noteq> []
     \<and> search health_regex (nvme_health_text ''abnormal'') = None"
    by (simp add: abnormal_box_def canned_queries i n fallback_segments)
  have m: "truthy (run_smartctl mixed_box ''smartctl.exe'' [''-i'', ''/dev/sda'']) =
             Some ''Model Number: X NVMe''
     \<and> run_smartctl mixed_box ''smartctl.exe'' [''-H'', ''/dev/sda''] =
             Some (nvme_health_text ''failed NORMAL'')
     \<and> nvme_health_text ''failed NORMAL'' \<noteq> []
     \<and> search health_regex (nvme_health_text ''failed NORMAL'') = None"
    by (simp add: mixed_box_def canned_queries i n fallback_segments)
  have f: "truthy (run_smartctl failed_box ''smartctl.exe'' [''-i'', ''/dev/sda'']) =
             Some ''Model Number: X NVMe''
     \<and> run_smartctl failed_box ''smartctl.exe'' [''-H'', ''/dev/sda''] =
             Some (nvme_health_text ''failed'')
     \<and> nvme_health_text ''failed'' \<noteq> []
     \<and> search health_regex (nvme_health_text ''failed'') = None"
    by (simp add: failed_box_def canned_queries i n fallback_segments)
  have "HealthStatus (get_disk_info abnormal_box ''smartctl.exe'' ''/dev/sda'') = ''PASSED''"
    by (rule th [OF a, THEN conjunct1, rule_format,
                 OF conjI [OF fallback_segments(2) segment_tests(1)]])
  moreover
  have "HealthStatus (get_disk_info mixed_box ''smartctl.exe'' ''/dev/sda'') = ''PASSED''"
    by (rule th [OF m, THEN conjunct1, rule_format,
                 OF conjI [OF fallback_segments(4) segment_tests(2)]])
  moreover
  have "HealthStatus (get_disk_info failed_box ''smartctl.exe'' ''/dev/sda'') = ''FAILED''"
    by (rule th [OF f, THEN conjunct2, THEN conjunct1, rule_format,
                 OF conjI [OF fallback_segments(6) segment_tests(4)]])
  moreover note segment_tests(3)
  ultimately show ?thesis by (intro conjI)
qed

end
